theory Spec2Isabelle
  imports Complex_Main
begin

section \<open>The student simulation environment (environment.py)\<close>

text \<open>
  A shallow embedding of \<^verbatim>\<open>StudentEnv\<close> and \<^verbatim>\<open>StudentEnvBypass\<close>.
  Python floats are modelled as \<^typ>\<open>real\<close>, NumPy arrays as (nested) lists, and
  every random draw is an explicit argument: \<^verbatim>\<open>np.random.normal(loc, scale)\<close> is
  \<open>loc + scale * z\<close> for a standard normal draw \<open>z\<close>, \<^verbatim>\<open>np.random.random()\<close>
  is a draw \<open>u\<close>. Mutation is explicit state passing; a stateful method returns its
  outcome together with the state it leaves behind, also when it raises.
\<close>

subsection \<open>Module constants\<close>

definition MEAN_START_SKILL_LEVEL :: real where "MEAN_START_SKILL_LEVEL = 20"
definition STD_START_SKILL_LEVEL :: real where "STD_START_SKILL_LEVEL = 10"
definition POPULATION_MEAN_SKILL_GAIN :: real where "POPULATION_MEAN_SKILL_GAIN = 2"
definition STUDENT_SKILL_GAIN_STD :: real where "STUDENT_SKILL_GAIN_STD = 2 / 10"
definition TEST_SCORE_STD :: real where "TEST_SCORE_STD = 5 / 10"
definition TARGET_SCORE :: real where "TARGET_SCORE = 95"
definition REVIEW_RATIO :: real where "REVIEW_RATIO = 25 / 100"
definition REWARD_FOR_ACHIEVING_TARGET_LEVEL :: real where "REWARD_FOR_ACHIEVING_TARGET_LEVEL = 200"
definition REWARD_FOR_ACHIEVING_ALL_LEVELS :: real where "REWARD_FOR_ACHIEVING_ALL_LEVELS = 2000"
definition PENALTY_FOR_UNNECESSARY_TEST :: real where "PENALTY_FOR_UNNECESSARY_TEST = - 700"
definition TIME_PENALTY_FOR_TEST :: real where "TIME_PENALTY_FOR_TEST = - 2"
definition GAIN_MULTIPLIER_FOR_TEST :: real where "GAIN_MULTIPLIER_FOR_TEST = 0"
definition NOT_ADAPTED_DIFFICULTY_PENALTY :: real where "NOT_ADAPTED_DIFFICULTY_PENALTY = 25 / 100"
definition GAIN_REWARD_RATIO :: real where "GAIN_REWARD_RATIO = 1 / 10"
definition PROPER_LEARNING_TYPE_REWARD :: real where "PROPER_LEARNING_TYPE_REWARD = 0"

subsection \<open>Errors, indexing and slices\<close>

datatype py_error = AssertionError | IndexError | ValueError | ZeroDivisionError | TypeError

text \<open>\<^verbatim>\<open>xs[i]\<close> for an index that is not negative.\<close>

definition getitem :: "'a list \<Rightarrow> nat \<Rightarrow> py_error + 'a" where
  "getitem xs i = (if i < length xs then Inr (xs ! i) else Inl IndexError)"

text \<open>\<^verbatim>\<open>xs[i]\<close> for a Python integer: a negative index counts from the end.\<close>

definition py_getitem :: "'a list \<Rightarrow> int \<Rightarrow> py_error + 'a" where
  "py_getitem xs i =
     (if 0 \<le> i \<and> i < int (length xs) then Inr (xs ! nat i)
      else if i < 0 \<and> - int (length xs) \<le> i then Inr (xs ! nat (int (length xs) + i))
      else Inl IndexError)"

text \<open>\<^verbatim>\<open>a[i, j]\<close> (a row of fields) and \<^verbatim>\<open>a[i, j, k]\<close> of a three-dimensional array.\<close>

definition getrow :: "'a list list list \<Rightarrow> nat \<Rightarrow> nat \<Rightarrow> py_error + 'a list" where
  "getrow a i j =
     (if i < length a \<and> j < length (a ! i) then Inr (a ! i ! j) else Inl IndexError)"

definition setrow :: "'a list list list \<Rightarrow> nat \<Rightarrow> nat \<Rightarrow> 'a list \<Rightarrow> 'a list list list" where
  "setrow a i j row = a[i := (a ! i)[j := row]]"

definition getitem3 :: "'a list list list \<Rightarrow> nat \<Rightarrow> nat \<Rightarrow> nat \<Rightarrow> py_error + 'a" where
  "getitem3 a i j k =
     (if i < length a \<and> j < length (a ! i) \<and> k < length (a ! i ! j)
      then Inr (a ! i ! j ! k) else Inl IndexError)"

definition setitem3 :: "'a list list list \<Rightarrow> nat \<Rightarrow> nat \<Rightarrow> nat \<Rightarrow> 'a \<Rightarrow> py_error + 'a list list list" where
  "setitem3 a i j k v =
     (if i < length a \<and> j < length (a ! i) \<and> k < length (a ! i ! j)
      then Inr (a[i := (a ! i)[j := (a ! i ! j)[k := v]]]) else Inl IndexError)"

text \<open>
  The two slices of a field vector: \<^verbatim>\<open>row[2:2 + L]\<close> (trainings since the last test)
  and \<^verbatim>\<open>row[-L:]\<close> (gain attributed to each learning type). In Python \<^verbatim>\<open>row[-0:]\<close>
  is the whole row.
\<close>

definition counts_slice :: "nat \<Rightarrow> 'a list \<Rightarrow> 'a list" where
  "counts_slice L row = take L (drop 2 row)"

definition gains_start :: "nat \<Rightarrow> 'a list \<Rightarrow> nat" where
  "gains_start L row = (if L = 0 then 0 else length row - L)"

definition gains_slice :: "nat \<Rightarrow> 'a list \<Rightarrow> 'a list" where
  "gains_slice L row = drop (gains_start L row) row"

text \<open>
  \<^verbatim>\<open>row[-L:] = new\<close>: NumPy broadcasts a vector of length one and refuses any other
  length that differs from the slice's.
\<close>

definition set_gains_slice :: "nat \<Rightarrow> 'a list \<Rightarrow> 'a list \<Rightarrow> py_error + 'a list" where
  "set_gains_slice L row new =
     (let n = length (gains_slice L row) in
      if length new = n then Inr (take (gains_start L row) row @ new)
      else if length new = 1 then Inr (take (gains_start L row) row @ replicate n (hd new))
      else Inl ValueError)"

text \<open>\<^verbatim>\<open>row[2:2 + L] = 0\<close>.\<close>

definition zero_counts_slice :: "nat \<Rightarrow> real list \<Rightarrow> real list" where
  "zero_counts_slice L row =
     take 2 row @ replicate (length (counts_slice L row)) 0 @ drop (2 + L) row"

text \<open>\<^verbatim>\<open>a[:, :, 0]\<close>.\<close>

definition layer0 :: "real list list list \<Rightarrow> py_error + real list list" where
  "layer0 a =
     (if list_all (list_all (\<lambda>row. row \<noteq> [])) a then Inr (map (map hd) a)
      else Inl IndexError)"

text \<open>
  \<^verbatim>\<open>np.average([a, b], weights=[wa, wb], axis=0)\<close> of two vectors, and of two
  scalars: the weighted sum over the sum of the weights, \<^verbatim>\<open>ZeroDivisionError\<close> when
  the weights sum to zero. The arithmetic is that of the reals: the rounding of
  double precision is not modelled, so the average of a vector with itself is the
  vector here, which in double precision holds up to rounding only.
\<close>

definition average2 :: "real \<Rightarrow> real \<Rightarrow> real \<Rightarrow> real \<Rightarrow> py_error + real" where
  "average2 a b wa wb =
     (if wa + wb = 0 then Inl ZeroDivisionError else Inr ((a * wa + b * wb) / (wa + wb)))"

definition average_rows :: "real list \<Rightarrow> real list \<Rightarrow> real \<Rightarrow> real \<Rightarrow> py_error + real list" where
  "average_rows a b wa wb =
     (if length a \<noteq> length b then Inl ValueError
      else if wa + wb = 0 then Inl ZeroDivisionError
      else Inr (map2 (\<lambda>x y. (x * wa + y * wb) / (wa + wb)) a b))"

text \<open>\<^verbatim>\<open>np.random.normal(loc, scale)\<close> from a standard normal draw.\<close>

definition normal :: "real \<Rightarrow> real \<Rightarrow> real \<Rightarrow> real" where
  "normal loc scale z = loc + scale * z"

text \<open>\<^verbatim>\<open>np.argmax\<close>: the first index of the largest entry.\<close>

fun argmax_from :: "nat \<Rightarrow> real \<Rightarrow> nat \<Rightarrow> real list \<Rightarrow> nat" where
  "argmax_from best m i [] = best"
| "argmax_from best m i (x # xs) =
     (if m < x then argmax_from i x (Suc i) xs else argmax_from best m (Suc i) xs)"

definition argmax :: "real list \<Rightarrow> nat" where
  "argmax xs = (case xs of [] \<Rightarrow> 0 | x # rest \<Rightarrow> argmax_from 0 x 1 rest)"

text \<open>\<^verbatim>\<open>np.sum(m, axis=0)\<close> of a matrix with rows of one length.\<close>

fun sum_axis0 :: "real list list \<Rightarrow> real list" where
  "sum_axis0 [] = []"
| "sum_axis0 [r] = r"
| "sum_axis0 (r # rs) = map2 (+) r (sum_axis0 rs)"

subsection \<open>The environment's state\<close>

datatype la_value = LStr string | LInt int | LNum real

type_synonym action_record = "(string \<times> la_value) list"

text \<open>\<^verbatim>\<open>d[k] = v\<close> on a dictionary kept in insertion order.\<close>

fun dict_set :: "string \<Rightarrow> la_value \<Rightarrow> action_record \<Rightarrow> action_record" where
  "dict_set k v [] = [(k, v)]"
| "dict_set k v ((k', v') # kvs) =
     (if k = k' then (k, v) # kvs else (k', v') # dict_set k v kvs)"

record student_env =
  difficulties_levels :: nat
  learning_type_number :: nat
  num_subjects :: nat
  skills_levels :: "real list"
  last_scores :: "real list list list"
  mean_skill_gains :: "real list list"
  difficulties_thresholds :: "real list"
  review_ratio :: real
  cumulative_train_time :: "real list"
  train_counter :: "real list list list"
  episode :: nat
  step_num :: nat
  last_action :: "action_record option"

text \<open>
  \<^verbatim>\<open>self.last_action[k] = v\<close>; \<^verbatim>\<open>last_action\<close> is \<^verbatim>\<open>None\<close> until the first step.
\<close>

definition set_last_action :: "string \<Rightarrow> la_value \<Rightarrow> student_env \<Rightarrow> py_error + student_env" where
  "set_last_action k v st =
     (case last_action st of
        None \<Rightarrow> Inl TypeError
      | Some d \<Rightarrow> Inr (st\<lparr>last_action := Some (dict_set k v d)\<rparr>))"

text \<open>
  The action space \<^verbatim>\<open>MultiDiscrete([2, S, D, L, D])\<close> is built once by the
  constructor from the three sizes, which no method changes afterwards.
  \<^verbatim>\<open>contains\<close> asks for the right arity and \<open>0 \<le> x < nvec\<close> componentwise.
\<close>

definition action_space :: "student_env \<Rightarrow> int list" where
  "action_space st =
     [2, int (num_subjects st), int (difficulties_levels st),
      int (learning_type_number st), int (difficulties_levels st)]"

definition contains :: "int list \<Rightarrow> int list \<Rightarrow> bool" where
  "contains nvec x =
     (length x = length nvec \<and> list_all (\<lambda>v. 0 \<le> v) x \<and> list_all2 (\<lambda>v n. v < n) x nvec)"

text \<open>\<^verbatim>\<open>np.linspace(0, 100, num=D, endpoint=False)\<close>.\<close>

definition linspace_0_100 :: "nat \<Rightarrow> real list" where
  "linspace_0_100 D = map (\<lambda>i. real i * (100 / real D)) [0..<D]"

subsection \<open>Difficulty classification and the mean of a test score\<close>

definition get_proper_difficulty :: "student_env \<Rightarrow> real \<Rightarrow> int" where
  "get_proper_difficulty st skill =
     int (length (filter (\<lambda>t. t \<le> skill) (difficulties_thresholds st))) - 1"

definition get_scaled_mean_score :: "student_env \<Rightarrow> nat \<Rightarrow> int \<Rightarrow> py_error + real" where
  "get_scaled_mean_score st subject difficulty =
     (case getitem (skills_levels st) subject of
        Inl e \<Rightarrow> Inl e
      | Inr skill \<Rightarrow>
          (case py_getitem (difficulties_thresholds st) difficulty of
             Inl e \<Rightarrow> Inl e
           | Inr threshold \<Rightarrow> Inr ((skill - threshold) * real (difficulties_levels st))))"

definition get_too_hard_test_mean :: "student_env \<Rightarrow> nat \<Rightarrow> nat \<Rightarrow> int \<Rightarrow> py_error + real" where
  "get_too_hard_test_mean st subject difficulty proper_difficulty =
     (case get_scaled_mean_score st subject proper_difficulty of
        Inl e \<Rightarrow> Inl e
      | Inr review_mean \<Rightarrow>
          Inr (review_ratio st ^ nat (int difficulty - proper_difficulty) * review_mean))"

definition get_proper_test_mean :: "student_env \<Rightarrow> nat \<Rightarrow> nat \<Rightarrow> py_error + real" where
  "get_proper_test_mean st subject difficulty =
     (case get_scaled_mean_score st subject (int difficulty) of
        Inl e \<Rightarrow> Inl e
      | Inr proper_mean \<Rightarrow>
          (let review_score = (if difficulty \<noteq> 0 then review_ratio st else 0)
           in Inr (review_score * 100 + proper_mean * (1 - review_score))))"

definition get_test_mean :: "student_env \<Rightarrow> nat \<Rightarrow> nat \<Rightarrow> py_error + real" where
  "get_test_mean st subject difficulty =
     (case getitem (skills_levels st) subject of
        Inl e \<Rightarrow> Inl e
      | Inr skill \<Rightarrow>
          (let proper_difficulty = get_proper_difficulty st skill in
           if proper_difficulty < int difficulty
           then get_too_hard_test_mean st subject difficulty proper_difficulty
           else if proper_difficulty > int difficulty then Inr 100
           else get_proper_test_mean st subject difficulty))"

definition get_not_adapted_learning_penalty :: "student_env \<Rightarrow> real \<Rightarrow> nat \<Rightarrow> real" where
  "get_not_adapted_learning_penalty st skill learning_difficulty =
     NOT_ADAPTED_DIFFICULTY_PENALTY
       ^ nat \<bar>int learning_difficulty - get_proper_difficulty st skill\<bar>"

subsection \<open>Gain attribution\<close>

text \<open>
  \<^verbatim>\<open>_get_mean_type_gain\<close> returns either a fresh vector (\<^verbatim>\<open>result\<close>) or, when no
  training was counted at the cell, the slice \<^verbatim>\<open>self.last_scores[subject, difficulty, -L:]\<close>,
  which in NumPy is a view of the score matrix: reading it later reads the matrix as
  it is then.
\<close>

datatype gain_vector = Fresh "real list" | View nat nat

definition deref :: "nat \<Rightarrow> real list list list \<Rightarrow> gain_vector \<Rightarrow> py_error + real list" where
  "deref L ls g =
     (case g of
        Fresh v \<Rightarrow> Inr v
      | View s d \<Rightarrow>
          (case getrow ls s d of Inl e \<Rightarrow> Inl e | Inr row \<Rightarrow> Inr (gains_slice L row)))"

text \<open>
  The loop \<^verbatim>\<open>for idx, elem in enumerate(zip(gains, ratio))\<close>, which fills
  \<^verbatim>\<open>result[idx]\<close>. Inside the loop the name \<^verbatim>\<open>ratio\<close> is rebound to the
  element's own share.
\<close>

fun type_gain_loop ::
  "real list list list \<Rightarrow> nat \<Rightarrow> nat \<Rightarrow> nat \<Rightarrow> (real \<times> real) list \<Rightarrow> real \<Rightarrow> py_error + real list" where
  "type_gain_loop tc subject difficulty idx [] new_gain = Inr []"
| "type_gain_loop tc subject difficulty idx ((last_avg, ratio) # rest) new_gain =
     (case getitem3 tc subject difficulty idx of
        Inl e \<Rightarrow> Inl e
      | Inr c \<Rightarrow>
          (case (if c = 0 then Inr new_gain else average2 last_avg new_gain c ratio) of
             Inl e \<Rightarrow> Inl e
           | Inr v \<Rightarrow>
               (case type_gain_loop tc subject difficulty (Suc idx) rest new_gain of
                  Inl e \<Rightarrow> Inl e
                | Inr vs \<Rightarrow> Inr (v # vs))))"

text \<open>
  The loop \<^verbatim>\<open>for d in range(self.learning_type_number): self.train_counter[subject, d, :] += ratio\<close>.
  It stops with \<^verbatim>\<open>IndexError\<close> at the first row that does not exist, leaving the
  rows before it updated.
\<close>

fun add_ratio_rows ::
  "real list list list \<Rightarrow> nat \<Rightarrow> nat list \<Rightarrow> real \<Rightarrow> py_error option \<times> real list list list" where
  "add_ratio_rows tc subject [] ratio = (None, tc)"
| "add_ratio_rows tc subject (d # ds) ratio =
     (if subject < length tc \<and> d < length (tc ! subject)
      then add_ratio_rows (setrow tc subject d (map (\<lambda>c. c + ratio) (tc ! subject ! d)))
             subject ds ratio
      else (Some IndexError, tc))"

text \<open>
  After the \<^verbatim>\<open>enumerate\<close> loop, \<^verbatim>\<open>ratio\<close> is the share of the last pair the loop
  saw (the zip is not empty when the total count is positive: the counts slice then
  has an entry, and so has the gains slice).
\<close>

definition get_mean_type_gain ::
  "student_env \<Rightarrow> nat \<Rightarrow> nat \<Rightarrow> real \<Rightarrow> (py_error + gain_vector) \<times> student_env" where
  "get_mean_type_gain st subject difficulty estimated_improvement =
     (case getrow (last_scores st) subject difficulty of
        Inl e \<Rightarrow> (Inl e, st)
      | Inr row \<Rightarrow>
          (let L = learning_type_number st;
               num_trainings_since_last_test = counts_slice L row;
               total = sum_list num_trainings_since_last_test
           in if total > 0 then
                (let ratio = map (\<lambda>c. c / total) num_trainings_since_last_test;
                     new_gain = estimated_improvement / total;
                     zipped = zip (gains_slice L row) ratio
                 in case type_gain_loop (train_counter st) subject difficulty 0 zipped new_gain of
                      Inl e \<Rightarrow> (Inl e, st)
                    | Inr vals \<Rightarrow>
                        (let result = vals @ replicate (L - length vals) (- 1);
                             looped = add_ratio_rows (train_counter st) subject [0..<L]
                                        (snd (last zipped));
                             st' = st\<lparr>train_counter := snd looped\<rparr>
                         in case fst looped of
                              Some e \<Rightarrow> (Inl e, st')
                            | None \<Rightarrow> (Inr (Fresh result), st')))
              else (Inr (View subject difficulty), st)))"

subsection \<open>Testing\<close>

text \<open>
  The inner loop \<^verbatim>\<open>for s in range(self.num_subjects)\<close> of \<^verbatim>\<open>_test\<close>, for one
  difficulty row \<open>d\<close>: every subject's gain fields become the average of what is
  stored and \<^verbatim>\<open>mean_type_gain\<close>, with weights 1 and 0.5.
\<close>

fun propagate_subjects ::
  "nat \<Rightarrow> gain_vector \<Rightarrow> nat \<Rightarrow> nat list \<Rightarrow> real list list list
     \<Rightarrow> py_error option \<times> real list list list" where
  "propagate_subjects L mtg d [] ls = (None, ls)"
| "propagate_subjects L mtg d (s # ss) ls =
     (case getrow ls s d of
        Inl e \<Rightarrow> (Some e, ls)
      | Inr row \<Rightarrow>
          (case deref L ls mtg of
             Inl e \<Rightarrow> (Some e, ls)
           | Inr g \<Rightarrow>
               (case average_rows (gains_slice L row) g 1 (1 / 2) of
                  Inl e \<Rightarrow> (Some e, ls)
                | Inr avg \<Rightarrow>
                    (case set_gains_slice L row avg of
                       Inl e \<Rightarrow> (Some e, ls)
                     | Inr row' \<Rightarrow> propagate_subjects L mtg d ss (setrow ls s d row')))))"

text \<open>
  The outer loop \<^verbatim>\<open>for d in range(self.difficulties_levels)\<close>: the tested subject's
  row \<open>d\<close> is overwritten with \<^verbatim>\<open>mean_type_gain\<close>, then the inner loop runs.
\<close>

fun propagate_gains ::
  "nat \<Rightarrow> nat \<Rightarrow> nat \<Rightarrow> gain_vector \<Rightarrow> nat list \<Rightarrow> real list list list
     \<Rightarrow> py_error option \<times> real list list list" where
  "propagate_gains L S subject mtg [] ls = (None, ls)"
| "propagate_gains L S subject mtg (d # ds) ls =
     (case getrow ls subject d of
        Inl e \<Rightarrow> (Some e, ls)
      | Inr row \<Rightarrow>
          (case deref L ls mtg of
             Inl e \<Rightarrow> (Some e, ls)
           | Inr g \<Rightarrow>
               (case set_gains_slice L row g of
                  Inl e \<Rightarrow> (Some e, ls)
                | Inr row' \<Rightarrow>
                    (case propagate_subjects L mtg d [0..<S] (setrow ls subject d row') of
                       (Some e, ls') \<Rightarrow> (Some e, ls')
                     | (None, ls') \<Rightarrow> propagate_gains L S subject mtg ds ls'))))"

text \<open>
  The reward \<^verbatim>\<open>_test\<close> returns once the score matrix is updated (its last three
  statements). \<^verbatim>\<open>difficulties_levels\<close> is positive whenever an action validates.
\<close>

definition test_reward :: "student_env \<Rightarrow> nat \<Rightarrow> nat \<Rightarrow> real \<Rightarrow> py_error + real" where
  "test_reward st subject difficulty previous_score =
     (case getitem (cumulative_train_time st) subject of
        Inl e \<Rightarrow> Inl e
      | Inr train_time \<Rightarrow>
          if train_time = 0 then Inr TIME_PENALTY_FOR_TEST
          else
            (case getitem3 (last_scores st) subject difficulty 0 of
               Inl e \<Rightarrow> Inl e
             | Inr score \<Rightarrow>
                 if score \<ge> TARGET_SCORE then
                   (if previous_score < TARGET_SCORE
                    then Inr (REWARD_FOR_ACHIEVING_TARGET_LEVEL * (real difficulty + 1)
                                / real (difficulties_levels st))
                    else Inr PENALTY_FOR_UNNECESSARY_TEST)
                 else Inr (GAIN_MULTIPLIER_FOR_TEST * (1 / sqrt (real (step_num st) + 1))
                             * ((score - previous_score) / train_time)
                           + TIME_PENALTY_FOR_TEST)))"

text \<open>
  The first statements of \<^verbatim>\<open>_test(subject, difficulty)\<close>: the score is sampled
  around the test mean and clamped to \<open>[0, 100]\<close>, the cell's gain and score are
  written, and the skill estimate is taken before and after. It returns the
  previous score and the estimated improvement. \<open>estimate_skills\<close> is the helper
  of the module \<^verbatim>\<open>utils\<close>, which is not part of the sources: it is a parameter.
  \<open>z\<close> is the standard normal draw behind the sampled score.
\<close>

definition sample_score ::
  "(real list list \<Rightarrow> real \<Rightarrow> real list) \<Rightarrow> student_env \<Rightarrow> nat \<Rightarrow> nat \<Rightarrow> real
     \<Rightarrow> (py_error + real \<times> real) \<times> student_env" where
  "sample_score estimate_skills st subject difficulty z =
     (case get_test_mean st subject difficulty of
        Inl e \<Rightarrow> (Inl e, st)
      | Inr test_mean \<Rightarrow>
     (case getitem3 (last_scores st) subject difficulty 0 of
        Inl e \<Rightarrow> (Inl e, st)
      | Inr previous_score \<Rightarrow>
     (case layer0 (last_scores st) of
        Inl e \<Rightarrow> (Inl e, st)
      | Inr previous_scores \<Rightarrow>
     (let sampled_test_score = min (max (normal test_mean TEST_SCORE_STD z) 0) 100 in
      case setitem3 (last_scores st) subject difficulty 1 (sampled_test_score - previous_score) of
        Inl e \<Rightarrow> (Inl e, st)
      | Inr ls1 \<Rightarrow>
     (case setitem3 ls1 subject difficulty 0 sampled_test_score of
        Inl e \<Rightarrow> (Inl e, st\<lparr>last_scores := ls1\<rparr>)
      | Inr ls2 \<Rightarrow>
     (let st2 = st\<lparr>last_scores := ls2\<rparr> in
      case layer0 ls2 of
        Inl e \<Rightarrow> (Inl e, st2)
      | Inr scores \<Rightarrow>
     (case getitem (estimate_skills scores REVIEW_RATIO) subject of
        Inl e \<Rightarrow> (Inl e, st2)
      | Inr estimate_after \<Rightarrow>
     (case getitem (estimate_skills previous_scores REVIEW_RATIO) subject of
        Inl e \<Rightarrow> (Inl e, st2)
      | Inr estimate_before \<Rightarrow>
          (Inr (previous_score, estimate_after - estimate_before), st2)))))))))"

text \<open>
  \<^verbatim>\<open>_test(subject, difficulty)\<close>: the sampling above, the gain attribution, its
  propagation into the score matrix, the reset of the cell's training counts and
  the reward.
\<close>

definition test ::
  "(real list list \<Rightarrow> real \<Rightarrow> real list) \<Rightarrow> student_env \<Rightarrow> nat \<Rightarrow> nat \<Rightarrow> real
     \<Rightarrow> (py_error + real) \<times> student_env" where
  "test estimate_skills st subject difficulty z =
     (case sample_score estimate_skills st subject difficulty z of
        (Inl e, st2) \<Rightarrow> (Inl e, st2)
      | (Inr (previous_score, estimated_improvement), st2) \<Rightarrow>
     (case get_mean_type_gain st2 subject difficulty estimated_improvement of
        (Inl e, st3) \<Rightarrow> (Inl e, st3)
      | (Inr mean_type_gain, st3) \<Rightarrow>
     (case propagate_gains (learning_type_number st3) (num_subjects st3) subject mean_type_gain
             [0..<difficulties_levels st3] (last_scores st3) of
        (Some e, ls4) \<Rightarrow> (Inl e, st3\<lparr>last_scores := ls4\<rparr>)
      | (None, ls4) \<Rightarrow>
     (case getrow ls4 subject difficulty of
        Inl e \<Rightarrow> (Inl e, st3\<lparr>last_scores := ls4\<rparr>)
      | Inr row \<Rightarrow>
     (let st5 = st3\<lparr>last_scores :=
                   setrow ls4 subject difficulty (zero_counts_slice (learning_type_number st3) row)\<rparr>
      in case getitem3 (last_scores st5) subject difficulty 0 of
        Inl e \<Rightarrow> (Inl e, st5)
      | Inr score \<Rightarrow>
     (case set_last_action ''test_score'' (LNum score) st5 of
        Inl e \<Rightarrow> (Inl e, st5)
      | Inr st6 \<Rightarrow>
     (case test_reward st6 subject difficulty previous_score of
        Inl e \<Rightarrow> (Inl e, st6)
      | Inr reward \<Rightarrow> (Inr reward, st6))))))))"

subsection \<open>Training\<close>

definition getitem2 :: "'a list list \<Rightarrow> nat \<Rightarrow> nat \<Rightarrow> py_error + 'a" where
  "getitem2 m i j =
     (if i < length m \<and> j < length (m ! i) then Inr (m ! i ! j) else Inl IndexError)"

text \<open>\<^verbatim>\<open>np.sum(self.last_scores[:, :, -L:], axis=(0, 1))\<close>.\<close>

definition gain_totals :: "nat \<Rightarrow> real list list list \<Rightarrow> real list" where
  "gain_totals L ls = sum_axis0 (concat (map (map (gains_slice L)) ls))"

text \<open>
  \<^verbatim>\<open>_train(subject, learning_type, learning_difficulty)\<close>; \<open>z\<close> is the standard
  normal draw behind the sampled gain. The values \<^verbatim>\<open>estimated_penalty\<close>,
  \<^verbatim>\<open>estimated_gain\<close> and \<^verbatim>\<open>adapted_learning_reward\<close> are computed and never
  used by the source; only the read \<^verbatim>\<open>estimate_skills(...)[subject]\<close> behind them
  can fail, and it is kept.
\<close>

definition train ::
  "(real list list \<Rightarrow> real \<Rightarrow> real list) \<Rightarrow> student_env \<Rightarrow> nat \<Rightarrow> nat \<Rightarrow> nat \<Rightarrow> real
     \<Rightarrow> (py_error + real) \<times> student_env" where
  "train estimate_skills st subject learning_type learning_difficulty z =
     (case getitem2 (mean_skill_gains st) subject learning_type of
        Inl e \<Rightarrow> (Inl e, st)
      | Inr mean_gain \<Rightarrow>
     (case getitem (skills_levels st) subject of
        Inl e \<Rightarrow> (Inl e, st)
      | Inr skill \<Rightarrow>
     (let sampled_gain = normal mean_gain STUDENT_SKILL_GAIN_STD z;
          adjusted_gain =
            max (sampled_gain * get_not_adapted_learning_penalty st skill learning_difficulty) 0;
          st1 = st\<lparr>skills_levels := (skills_levels st)[subject := min (skill + adjusted_gain) 100]\<rparr>
      in case set_last_action ''improvement'' (LNum (max adjusted_gain 0)) st1 of
        Inl e \<Rightarrow> (Inl e, st1)
      | Inr st2 \<Rightarrow>
     (case set_last_action ''learning_type'' (LInt (int learning_type + 1)) st2 of
        Inl e \<Rightarrow> (Inl e, st2)
      | Inr st3 \<Rightarrow>
     (case getitem (cumulative_train_time st3) subject of
        Inl e \<Rightarrow> (Inl e, st3)
      | Inr train_time \<Rightarrow>
     (let st4 = st3\<lparr>cumulative_train_time :=
                   (cumulative_train_time st3)[subject := train_time + (real learning_type + 1)]\<rparr>
      in case getitem3 (last_scores st4) subject learning_difficulty (2 + learning_type) of
        Inl e \<Rightarrow> (Inl e, st4)
      | Inr trainings \<Rightarrow>
     (case setitem3 (last_scores st4) subject learning_difficulty (2 + learning_type)
             (trainings + 1) of
        Inl e \<Rightarrow> (Inl e, st4)
      | Inr ls5 \<Rightarrow>
     (let st5 = st4\<lparr>last_scores := ls5\<rparr> in
      case layer0 ls5 of
        Inl e \<Rightarrow> (Inl e, st5)
      | Inr scores \<Rightarrow>
     (case getitem (estimate_skills scores REVIEW_RATIO) subject of
        Inl e \<Rightarrow> (Inl e, st5)
      | Inr estimated_skill \<Rightarrow>
     (let predicted_excellence = argmax (gain_totals (learning_type_number st5) ls5) in
      if learning_type = argmax (sum_axis0 (mean_skill_gains st5))
           \<and> predicted_excellence = learning_type
      then (Inr PROPER_LEARNING_TYPE_REWARD, st5)
      else (Inr 0, st5)))))))))))"

subsection \<open>Step orchestration\<close>

text \<open>\<^verbatim>\<open>self.last_scores[:, -1, 0]\<close>: every subject's score at the highest difficulty.\<close>

definition top_scores :: "real list list list \<Rightarrow> py_error + real list" where
  "top_scores ls =
     (if list_all (\<lambda>rows. rows \<noteq> [] \<and> last rows \<noteq> []) ls
      then Inr (map (\<lambda>rows. hd (last rows)) ls) else Inl IndexError)"

text \<open>
  What \<^verbatim>\<open>step\<close> returns: the observation (the score matrix), the reward, the
  \<^verbatim>\<open>is_done\<close> flag (1 or 0 in the source, a truth value here) and the empty
  \<^verbatim>\<open>info\<close> dictionary.
\<close>

type_synonym step_result = "real list list list \<times> real \<times> bool \<times> action_record"

definition step ::
  "(real list list \<Rightarrow> real \<Rightarrow> real list) \<Rightarrow> student_env \<Rightarrow> int list \<Rightarrow> real
     \<Rightarrow> (py_error + step_result) \<times> student_env" where
  "step estimate_skills st action z =
     (if \<not> contains (action_space st) action then (Inl AssertionError, st)
      else
        (let is_test = (action ! 0 \<noteq> 0);
             subject = nat (action ! 1);
             test_difficulty = nat (action ! 2);
             learning_types = nat (action ! 3);
             learning_difficulty = nat (action ! 4);
             difficulty_to_log = (if is_test then test_difficulty else learning_difficulty);
             st0 = st\<lparr>last_action := Some
                     [(''action'', LStr (if is_test then ''test'' else ''train'')),
                      (''subject'', LInt (int subject + 1)),
                      (''difficulty'', LInt (int difficulty_to_log + 1))]\<rparr>
         in case
              (if is_test then
                 (case test estimate_skills st0 subject test_difficulty z of
                    (Inl e, st1) \<Rightarrow> (Inl e, st1)
                  | (Inr reward, st1) \<Rightarrow>
                      (if subject < length (cumulative_train_time st1) then
                         (let st2 = st1\<lparr>cumulative_train_time :=
                                       (cumulative_train_time st1)[subject := 0]\<rparr>
                          in case top_scores (last_scores st2) of
                               Inl e \<Rightarrow> (Inl e, st2)
                             | Inr tops \<Rightarrow>
                                 if list_all (\<lambda>v. v > TARGET_SCORE) tops
                                 then (Inr (reward + REWARD_FOR_ACHIEVING_ALL_LEVELS, True), st2)
                                 else (Inr (reward, False), st2))
                       else (Inl IndexError, st1)))
               else
                 (case train estimate_skills st0 subject learning_types learning_difficulty z of
                    (Inl e, st1) \<Rightarrow> (Inl e, st1)
                  | (Inr reward, st1) \<Rightarrow> (Inr (reward, False), st1)))
            of
              (Inl e, st3) \<Rightarrow> (Inl e, st3)
            | (Inr (reward, is_done), st3) \<Rightarrow>
                (let reward' = reward + (- sqrt (real (step_num st3))) in
                 case set_last_action ''reward'' (LNum reward') st3 of
                   Inl e \<Rightarrow> (Inl e, st3)
                 | Inr st4 \<Rightarrow>
                     (Inr (last_scores st4, reward', is_done, []),
                      st4\<lparr>step_num := step_num st4 + 1\<rparr>))))"

subsection \<open>The skill gain profile, the constructor and reset\<close>

text \<open>
  The draws of \<^verbatim>\<open>_get_mean_skills_gains\<close>: the coin \<^verbatim>\<open>np.random.random()\<close>, the
  standard normal draws behind the excellence type and the two other types, and
  those behind the noise matrix of \<^verbatim>\<open>size=(3, 3)\<close>.
\<close>

record gain_draws =
  coin :: real
  z_excellence :: real
  z_first :: real
  z_second :: real
  z_noise :: "nat \<Rightarrow> nat \<Rightarrow> real"

definition get_mean_skills_gains :: "nat \<Rightarrow> nat \<Rightarrow> gain_draws \<Rightarrow> real list list" where
  "get_mean_skills_gains subjects_number learning_types_number dr =
     (let profile =
            (if coin dr > 5 / 10
             then [normal 3 (2 / 10) (z_excellence dr),
                   normal (3 / 10) (1 / 10) (z_first dr),
                   normal (3 / 10) (1 / 10) (z_second dr)]
             else [normal (2 / 10) (1 / 10) (z_first dr),
                   normal (2 / 10) (1 / 10) (z_second dr),
                   normal 3 (2 / 10) (z_excellence dr)]);
          tiled = replicate 3 profile;
          excellence_skills =
            map (\<lambda>i. map (\<lambda>j. tiled ! i ! j + normal 0 (5 / 100) (z_noise dr i j)) [0..<3]) [0..<3]
      in map (map (\<lambda>x. max x (5 / 100))) excellence_skills)"

text \<open>
  \<^verbatim>\<open>np.maximum(np.random.normal(MEAN_START_SKILL_LEVEL, STD_START_SKILL_LEVEL, size=n), 0)\<close>
  from \<open>n\<close> standard normal draws.
\<close>

definition start_skills :: "nat \<Rightarrow> (nat \<Rightarrow> real) \<Rightarrow> real list" where
  "start_skills n zs =
     map (\<lambda>i. max (normal MEAN_START_SKILL_LEVEL STD_START_SKILL_LEVEL (zs i)) 0) [0..<n]"

text \<open>\<^verbatim>\<open>StudentEnv.__init__(num_subjects, num_difficulty_levels, num_learning_types)\<close>.\<close>

definition init :: "nat \<Rightarrow> nat \<Rightarrow> nat \<Rightarrow> (nat \<Rightarrow> real) \<Rightarrow> gain_draws \<Rightarrow> student_env" where
  "init S D L zs dr =
     \<lparr>difficulties_levels = D,
      learning_type_number = L,
      num_subjects = S,
      skills_levels = start_skills S zs,
      last_scores = replicate S (replicate D (replicate (2 * L + 2) 0)),
      mean_skill_gains = get_mean_skills_gains S L dr,
      difficulties_thresholds = linspace_0_100 D,
      review_ratio = 1 / (real D + 1),
      cumulative_train_time = replicate S 0,
      train_counter = replicate S (replicate D (replicate L 0)),
      episode = 0,
      step_num = 0,
      last_action = None\<rparr>"

text \<open>\<^verbatim>\<open>reset()\<close>; it returns the zeroed score matrix.\<close>

definition reset :: "student_env \<Rightarrow> (nat \<Rightarrow> real) \<Rightarrow> gain_draws \<Rightarrow> real list list list \<times> student_env" where
  "reset st zs dr =
     (let st' = st\<lparr>
            skills_levels := start_skills (length (skills_levels st)) zs,
            last_scores := map (map (map (\<lambda>_. 0))) (last_scores st),
            mean_skill_gains :=
              get_mean_skills_gains (length (mean_skill_gains st))
                (case mean_skill_gains st of [] \<Rightarrow> 0 | r # _ \<Rightarrow> length r) dr,
            difficulties_thresholds := linspace_0_100 (difficulties_levels st),
            cumulative_train_time := map (\<lambda>_. 0) (cumulative_train_time st),
            train_counter := map (map (map (\<lambda>_. 0))) (train_counter st),
            episode := episode st + 1,
            step_num := 0\<rparr>
      in (last_scores st', st'))"

subsection \<open>The biased training variant\<close>

text \<open>
  \<^verbatim>\<open>StudentEnvBypass\<close> inherits every field and method of \<^verbatim>\<open>StudentEnv\<close>, adds
  \<^verbatim>\<open>prob_ratio\<close> and overrides \<^verbatim>\<open>step\<close>. The inherited part of the object is
  \<open>base_env\<close>.
\<close>

record student_env_bypass =
  base_env :: student_env
  prob_ratio :: "real list"

text \<open>
  \<^verbatim>\<open>StudentEnvBypass.__init__(studentenvcopy, prob_ratio)\<close>: the base constructor
  runs on the copied sizes (so the thresholds, the review ratio and the empty
  \<^verbatim>\<open>last_action\<close> are its own), then the other fields are deep copies.
\<close>

definition bypass_init :: "student_env \<Rightarrow> real list option \<Rightarrow> student_env_bypass" where
  "bypass_init studentenvcopy p =
     \<lparr>base_env = studentenvcopy\<lparr>
        difficulties_thresholds := linspace_0_100 (difficulties_levels studentenvcopy),
        review_ratio := 1 / (real (difficulties_levels studentenvcopy) + 1),
        last_action := None\<rparr>,
      prob_ratio = (case p of None \<Rightarrow> [8 / 10, 1 / 10, 1 / 10]
                    | Some q \<Rightarrow> if q = [] then [8 / 10, 1 / 10, 1 / 10] else q)\<rparr>"

text \<open>
  \<^verbatim>\<open>np.random.choice(a, p=p)\<close> for an integer \<open>a\<close>, as NumPy computes it from one
  uniform draw \<open>u\<close> in \<open>[0, 1)\<close>: \<open>p\<close> must have \<open>a\<close> entries, none negative,
  summing to 1 within \<open>sqrt eps\<close>; the result is the number of entries of the
  normalised cumulative sums that are at most \<open>u\<close>.
\<close>

fun cumsum_from :: "real \<Rightarrow> real list \<Rightarrow> real list" where
  "cumsum_from acc [] = []"
| "cumsum_from acc (x # xs) = (acc + x) # cumsum_from (acc + x) xs"

definition random_choice :: "nat \<Rightarrow> real list \<Rightarrow> real \<Rightarrow> py_error + nat" where
  "random_choice a p u =
     (if a = 0 \<or> length p \<noteq> a \<or> \<not> list_all (\<lambda>x. 0 \<le> x) p
         \<or> \<bar>sum_list p - 1\<bar> > 1 / 2 ^ 26
      then Inl ValueError
      else (let cdf = cumsum_from 0 p
            in Inr (length (filter (\<lambda>c. c / last cdf \<le> u) cdf))))"

text \<open>
  \<^verbatim>\<open>StudentEnvBypass.step(action)\<close>; \<open>u\<close> is the uniform draw of
  \<^verbatim>\<open>np.random.choice\<close> (taken on the training path only).
\<close>

definition bypass_step ::
  "(real list list \<Rightarrow> real \<Rightarrow> real list) \<Rightarrow> student_env_bypass \<Rightarrow> int list \<Rightarrow> real \<Rightarrow> real
     \<Rightarrow> (py_error + step_result) \<times> student_env_bypass" where
  "bypass_step estimate_skills b action u z =
     (let st = base_env b in
      if \<not> contains (action_space st) action then (Inl AssertionError, b)
      else
        (let is_test = (action ! 0 \<noteq> 0);
             subject = nat (action ! 1);
             test_difficulty = nat (action ! 2);
             learning_difficulty = nat (action ! 4);
             difficulty_to_log = (if is_test then test_difficulty else learning_difficulty);
             st0 = st\<lparr>last_action := Some
                     [(''action'', LStr (if is_test then ''test'' else ''train'')),
                      (''subject'', LInt (int subject + 1)),
                      (''difficulty'', LInt (int difficulty_to_log + 1))]\<rparr>
         in case
              (if is_test then
                 (case test estimate_skills st0 subject test_difficulty z of
                    (Inl e, st1) \<Rightarrow> (Inl e, st1)
                  | (Inr reward, st1) \<Rightarrow>
                      (if subject < length (cumulative_train_time st1) then
                         (let st2 = st1\<lparr>cumulative_train_time :=
                                       (cumulative_train_time st1)[subject := 0]\<rparr>
                          in case top_scores (last_scores st2) of
                               Inl e \<Rightarrow> (Inl e, st2)
                             | Inr tops \<Rightarrow>
                                 if list_all (\<lambda>v. v > TARGET_SCORE) tops
                                 then (Inr (reward + REWARD_FOR_ACHIEVING_ALL_LEVELS, True), st2)
                                 else (Inr (reward, False), st2))
                       else (Inl IndexError, st1)))
               else
                 (case random_choice (difficulties_levels st0) (prob_ratio b) u of
                    Inl e \<Rightarrow> (Inl e, st0)
                  | Inr learning_types \<Rightarrow>
                      (case train estimate_skills st0 subject learning_types learning_difficulty z of
                         (Inl e, st1) \<Rightarrow> (Inl e, st1)
                       | (Inr reward, st1) \<Rightarrow> (Inr (reward, False), st1))))
            of
              (Inl e, st3) \<Rightarrow> (Inl e, b\<lparr>base_env := st3\<rparr>)
            | (Inr (reward, is_done), st3) \<Rightarrow>
                (let reward' = reward + (- sqrt (real (step_num st3))) in
                 case set_last_action ''reward'' (LNum reward') st3 of
                   Inl e \<Rightarrow> (Inl e, b\<lparr>base_env := st3\<rparr>)
                 | Inr st4 \<Rightarrow>
                     (Inr (last_scores st4, reward', is_done, []),
                      b\<lparr>base_env := st4\<lparr>step_num := step_num st4 + 1\<rparr>\<rparr>))))"

subsection \<open>Concrete environments\<close>

text \<open>
  Draws, an estimator and small environments on which the theorems below are
  evaluated. \<open>example_estimate\<close> stands in for \<^verbatim>\<open>utils.estimate_skills\<close>: it
  gives every subject the largest of its scores.
\<close>

definition example_draws :: gain_draws where
  "example_draws =
     \<lparr>coin = 0, z_excellence = 0, z_first = 0, z_second = 0, z_noise = (\<lambda>i j. 0)\<rparr>"

definition example_estimate :: "real list list \<Rightarrow> real \<Rightarrow> real list" where
  "example_estimate scores r = map (\<lambda>row. fold max row 0) scores"

definition example_env :: student_env where
  "example_env = init 1 1 1 (\<lambda>i. 0) example_draws"

definition example_bypass :: student_env_bypass where
  "example_bypass = bypass_init example_env None"

definition example_env3 :: student_env where
  "example_env3 = init 1 3 3 (\<lambda>i. 2) example_draws"

definition example_bypass3 :: student_env_bypass where
  "example_bypass3 = bypass_init example_env3 None"

definition example_env4 :: student_env where
  "example_env4 = init 4 3 3 (\<lambda>i. 0) example_draws"

definition example_trained :: student_env where
  "example_trained =
     snd (step example_estimate (init 1 2 2 (\<lambda>i. 0) example_draws) [0, 0, 0, 1, 0] 0)"

definition example_skilled :: student_env where
  "example_skilled = init 1 1 1 (\<lambda>i. 76 / 10) example_draws"

definition example_done :: student_env where
  "example_done = snd (step example_estimate example_skilled [1, 0, 0, 0, 0] 0)"

definition example_wide :: student_env where
  "example_wide = init 1 2 3 (\<lambda>i. 0) example_draws"

definition example_untrained :: student_env where
  "example_untrained =
     snd (step example_estimate
            (snd (step example_estimate example_wide [0, 0, 0, 0, 1] 0)) [1, 0, 0, 0, 0] 0)"

definition example_bypass23 :: student_env_bypass where
  "example_bypass23 = bypass_init example_wide None"

definition example_env32 :: student_env where
  "example_env32 = init 1 3 2 (\<lambda>i. 0) example_draws"

definition example_bypass32 :: student_env_bypass where
  "example_bypass32 = bypass_init example_env32 None"

subsection \<open>Auxiliary notions for the proofs\<close>

text \<open>
  A three-dimensional array of shape \<open>S \<times> D \<times> n\<close>; the weighted average of
  \<^verbatim>\<open>np.average\<close> with weights 1 and 0.5; a field vector with its gain fields
  overwritten by \<open>g\<close>, and with its gain fields averaged with \<open>g\<close>.
\<close>

definition rect :: "nat \<Rightarrow> nat \<Rightarrow> nat \<Rightarrow> 'a list list list \<Rightarrow> bool" where
  "rect S D n a \<longleftrightarrow>
     length a = S \<and> (\<forall>s<S. length (a ! s) = D \<and> (\<forall>d<D. length (a ! s ! d) = n))"

definition weighted :: "real \<Rightarrow> real \<Rightarrow> real" where
  "weighted x y = (x * 1 + y * (1 / 2)) / (1 + 1 / 2)"

definition put_gains :: "nat \<Rightarrow> real list \<Rightarrow> real list \<Rightarrow> real list" where
  "put_gains L g row = take (gains_start L row) row @ g"

definition blend_gains :: "nat \<Rightarrow> real list \<Rightarrow> real list \<Rightarrow> real list" where
  "blend_gains L g row = take (gains_start L row) row @ map2 weighted (gains_slice L row) g"

text \<open>
  The shapes the constructor gives the arrays, and the signs of the training
  counts and of the cumulative train counter.
\<close>

definition shapes_ok :: "student_env \<Rightarrow> bool" where
  "shapes_ok st \<longleftrightarrow>
     0 < learning_type_number st
     \<and> length (skills_levels st) = num_subjects st
     \<and> length (difficulties_thresholds st) = difficulties_levels st
     \<and> length (cumulative_train_time st) = num_subjects st
     \<and> rect (num_subjects st) (difficulties_levels st) (2 * learning_type_number st + 2)
          (last_scores st)
     \<and> rect (num_subjects st) (difficulties_levels st) (learning_type_number st)
          (train_counter st)"

definition counters_nonneg :: "student_env \<Rightarrow> bool" where
  "counters_nonneg st \<longleftrightarrow>
     (\<forall>s<num_subjects st. \<forall>d<difficulties_levels st.
        (\<forall>c\<in>set (counts_slice (learning_type_number st) (last_scores st ! s ! d)). 0 \<le> c)
        \<and> (\<forall>c\<in>set (train_counter st ! s ! d). 0 \<le> c))"

definition example_two :: student_env where
  "example_two =
     snd (step example_estimate (init 2 2 1 (\<lambda>i. 0) example_draws) [0, 0, 0, 0, 0] 0)"

section \<open>Properties\<close>

subsection \<open>Action validation\<close>

lemma contains_iff:
  "contains nvec x \<longleftrightarrow>
     length x = length nvec \<and> (\<forall>i<length x. 0 \<le> x ! i \<and> x ! i < nvec ! i)"
  by (auto simp: contains_def list_all_length list_all2_conv_all_nth)

text \<open>
  C9. An action of the wrong arity, or with a component outside its bound, makes
  \<^verbatim>\<open>step\<close> fail with the assertion's error, in the base environment and in the
  biased variant alike, and the environment is left exactly as it was: the
  assertion is the first statement of both methods.
\<close>

theorem invalid_action_rejected:
  assumes "length action \<noteq> 5
           \<or> (\<exists>i<5. action ! i < 0 \<or> action_space (base_env b) ! i \<le> action ! i)"
  shows "step est (base_env b) action z = (Inl AssertionError, base_env b)
       \<and> bypass_step est b action u z = (Inl AssertionError, b)"
proof -
  have len: "length (action_space (base_env b)) = 5"
    by (simp add: action_space_def)
  have "\<not> contains (action_space (base_env b)) action"
  proof
    assume c: "contains (action_space (base_env b)) action"
    then have l: "length action = 5" and
      all: "\<forall>i<5. 0 \<le> action ! i \<and> action ! i < action_space (base_env b) ! i"
      using len by (simp_all add: contains_iff)
    from assms l obtain i where
      "i < 5" "action ! i < 0 \<or> action_space (base_env b) ! i \<le> action ! i"
      by blast
    with all show False by fastforce
  qed
  then show ?thesis by (simp add: step_def bypass_step_def)
qed

theorem invalid_action_rejected_witness:
  "(\<exists>i<5. [2, 0, 0, 0, 0] ! i < (0::int)
          \<or> action_space (base_env example_bypass) ! i \<le> [2, 0, 0, 0, 0] ! i)
   \<and> step example_estimate (base_env example_bypass) [2, 0, 0, 0, 0] 0
       = (Inl AssertionError, base_env example_bypass)
   \<and> bypass_step example_estimate example_bypass [2, 0, 0, 0, 0] 0 0
       = (Inl AssertionError, example_bypass)"
proof -
  have h: "\<exists>i<5. [2, 0, 0, 0, 0] ! i < (0::int)
          \<or> action_space (base_env example_bypass) ! i \<le> [2, 0, 0, 0, 0] ! i"
    by (rule exI[of _ 0]) (simp add: action_space_def)
  from h invalid_action_rejected[of "[2, 0, 0, 0, 0]" example_bypass example_estimate 0 0]
  show ?thesis by blast
qed

subsection \<open>The mean of a test score\<close>

lemma length_linspace: "length (linspace_0_100 D) = D"
  by (simp add: linspace_0_100_def)

lemma linspace_first: "0 < D \<Longrightarrow> linspace_0_100 D ! 0 = 0"
  by (simp add: linspace_0_100_def)

lemma proper_difficulty_upper:
  "get_proper_difficulty st skill < int (length (difficulties_thresholds st))"
proof -
  have "length (filter (\<lambda>t. t \<le> skill) (difficulties_thresholds st))
        \<le> length (difficulties_thresholds st)"
    by (rule length_filter_le)
  then show ?thesis unfolding get_proper_difficulty_def by linarith
qed

lemma proper_difficulty_lower:
  assumes thr: "difficulties_thresholds st = linspace_0_100 D" and D: "0 < D" and sk: "0 \<le> skill"
  shows "0 \<le> get_proper_difficulty st skill"
proof -
  have m: "linspace_0_100 D ! 0 \<in> set (linspace_0_100 D)"
    by (rule nth_mem) (simp add: length_linspace D)
  have "(0::real) \<in> set (linspace_0_100 D)"
    using m linspace_first[OF D] by simp
  then have "0 \<in> set (filter (\<lambda>t. t \<le> skill) (linspace_0_100 D))"
    using sk by simp
  then have "filter (\<lambda>t. t \<le> skill) (linspace_0_100 D) \<noteq> []"
    by (metis empty_iff empty_set)
  then have "0 < length (filter (\<lambda>t. t \<le> skill) (linspace_0_100 D))"
    by simp
  then show ?thesis unfolding get_proper_difficulty_def thr by linarith
qed

text \<open>
  C2. The mean of the sampled test score, by the subject's proper difficulty \<open>pd\<close>:
  above it the mean is \<open>review_ratio ^ (difficulty - pd)\<close> times the scaled mean at
  \<open>pd\<close>, below it the mean is 100, and at it the mean blends 100 and the scaled
  mean with the review ratio, except at the lowest tier, where it is the scaled
  mean alone. The review ratio is \<open>1 / (D + 1)\<close> and the scaled mean at \<open>d\<close> is
  \<open>(skill - threshold[d]) * D\<close>. The hypotheses are what the constructor and
  \<^verbatim>\<open>reset\<close> establish: the thresholds, the review ratio and a skill that is not
  negative.
\<close>

theorem test_mean_piecewise:
  assumes thr: "difficulties_thresholds st = linspace_0_100 (difficulties_levels st)"
      and rr: "review_ratio st = 1 / (real (difficulties_levels st) + 1)"
      and sk: "subject < length (skills_levels st)" "0 \<le> skills_levels st ! subject"
      and d: "difficulty < difficulties_levels st"
  shows "let D = difficulties_levels st;
             skill = skills_levels st ! subject;
             pd = nat (get_proper_difficulty st skill);
             rr = 1 / (real D + 1);
             scaled_mean = (\<lambda>d. (skill - difficulties_thresholds st ! d) * real D)
         in get_proper_difficulty st skill = int pd \<and> pd < D \<and>
            get_test_mean st subject difficulty =
              Inr (if pd < difficulty then rr ^ (difficulty - pd) * scaled_mean pd
                   else if difficulty < pd then 100
                   else if 0 < difficulty then rr * 100 + scaled_mean difficulty * (1 - rr)
                   else scaled_mean 0)"
proof -
  define skill where "skill = skills_levels st ! subject"
  define g where "g = get_proper_difficulty st skill"
  have D: "0 < difficulties_levels st" using d by simp
  have lo: "0 \<le> g"
    unfolding g_def using proper_difficulty_lower[OF thr D] sk(2) skill_def by simp
  have hi: "g < int (difficulties_levels st)"
    unfolding g_def using proper_difficulty_upper[of st skill] thr by (simp add: length_linspace)
  have len: "length (difficulties_thresholds st) = difficulties_levels st"
    using thr by (simp add: length_linspace)
  have sub: "nat (int difficulty - g) = difficulty - nat g" using lo by simp
  have g0: "int (nat g) = g" using lo by simp
  have pdlt: "nat g < difficulties_levels st" using lo hi by simp
  have sm: "\<And>k. k < difficulties_levels st \<Longrightarrow>
      get_scaled_mean_score st subject (int k)
        = Inr ((skill - difficulties_thresholds st ! k) * real (difficulties_levels st))"
    using sk(1) len by (simp add: get_scaled_mean_score_def getitem_def py_getitem_def skill_def)
  have tm: "get_test_mean st subject difficulty =
      (if g < int difficulty then get_too_hard_test_mean st subject difficulty g
       else if g > int difficulty then Inr 100
       else get_proper_test_mean st subject difficulty)"
    using sk(1) by (simp add: get_test_mean_def getitem_def Let_def skill_def g_def)
  have hard: "get_too_hard_test_mean st subject difficulty g =
      Inr ((1 / (real (difficulties_levels st) + 1)) ^ (difficulty - nat g)
           * ((skill - difficulties_thresholds st ! nat g) * real (difficulties_levels st)))"
    using sm[OF pdlt] sub unfolding g0 by (simp add: get_too_hard_test_mean_def rr)
  have pm: "get_proper_test_mean st subject difficulty =
      Inr (if 0 < difficulty
           then 1 / (real (difficulties_levels st) + 1) * 100
                + (skill - difficulties_thresholds st ! difficulty) * real (difficulties_levels st)
                  * (1 - 1 / (real (difficulties_levels st) + 1))
           else (skill - difficulties_thresholds st ! 0) * real (difficulties_levels st))"
    using sm[OF d] by (simp add: get_proper_test_mean_def rr Let_def)
  have c1: "g < int difficulty \<longleftrightarrow> nat g < difficulty" using lo by linarith
  have c2: "g > int difficulty \<longleftrightarrow> difficulty < nat g" using lo by linarith
  have res: "get_test_mean st subject difficulty =
      Inr (if nat g < difficulty
           then (1 / (real (difficulties_levels st) + 1)) ^ (difficulty - nat g)
                * ((skill - difficulties_thresholds st ! nat g) * real (difficulties_levels st))
           else if difficulty < nat g then 100
           else if 0 < difficulty
           then 1 / (real (difficulties_levels st) + 1) * 100
                + (skill - difficulties_thresholds st ! difficulty) * real (difficulties_levels st)
                  * (1 - 1 / (real (difficulties_levels st) + 1))
           else (skill - difficulties_thresholds st ! 0) * real (difficulties_levels st))"
    unfolding tm c1 c2 hard pm by simp
  show ?thesis
    unfolding Let_def skill_def[symmetric] g_def[symmetric]
    using g0 pdlt res by simp
qed

lemma upt3: "[0..<3] = [0, 1, 2]"
  by (simp add: upt_rec)

lemma ex3_fields:
  "difficulties_levels example_env3 = 3"
  "skills_levels example_env3 = [40]"
  "difficulties_thresholds example_env3 = [0, 100 / 3, 200 / 3]"
  "review_ratio example_env3 = 1 / 4"
  by (simp_all add: example_env3_def init_def start_skills_def normal_def linspace_0_100_def
      MEAN_START_SKILL_LEVEL_def STD_START_SKILL_LEVEL_def upt3)

lemma ex3_pd: "get_proper_difficulty example_env3 40 = 1"
  by (simp add: get_proper_difficulty_def ex3_fields)

theorem test_mean_piecewise_witness:
  "difficulties_thresholds example_env3 = linspace_0_100 (difficulties_levels example_env3)
   \<and> review_ratio example_env3 = 1 / (real (difficulties_levels example_env3) + 1)
   \<and> 0 < length (skills_levels example_env3)
   \<and> 0 \<le> skills_levels example_env3 ! 0
   \<and> 2 < difficulties_levels example_env3
   \<and> get_proper_difficulty example_env3 (skills_levels example_env3 ! 0) = 1
   \<and> get_test_mean example_env3 0 2 = Inr 5"
proof -
  have h1: "difficulties_thresholds example_env3 = linspace_0_100 (difficulties_levels example_env3)"
    by (simp add: example_env3_def init_def)
  have h2: "review_ratio example_env3 = 1 / (real (difficulties_levels example_env3) + 1)"
    by (simp add: example_env3_def init_def)
  have h3: "0 < length (skills_levels example_env3)" by (simp add: ex3_fields)
  have h4: "0 \<le> skills_levels example_env3 ! 0" by (simp add: ex3_fields)
  have h5: "2 < difficulties_levels example_env3" by (simp add: ex3_fields)
  have pd: "get_proper_difficulty example_env3 (skills_levels example_env3 ! 0) = 1"
    by (simp add: ex3_fields(2) ex3_pd)
  have "get_test_mean example_env3 0 2 = Inr 5"
    using test_mean_piecewise[OF h1 h2 h3 h4 h5]
    by (simp add: Let_def ex3_pd ex3_fields)
  with h1 h2 h3 h4 h5 pd show ?thesis by blast
qed

subsection \<open>The biased training variant and the base environment\<close>

text \<open>
  On a test action the variant's \<^verbatim>\<open>step\<close> is the base \<^verbatim>\<open>step\<close> on the inherited
  state, with the same outcome and the same state left behind. On a training action
  the learning type the caller gave is ignored; when the draw of
  \<^verbatim>\<open>np.random.choice\<close> succeeds and is a valid learning type, the step is the base
  step with the learning type replaced by the draw.
\<close>

lemma finish_lift:
  "(case X of
      (Inl e, st3) \<Rightarrow> (Inl e, b\<lparr>base_env := st3\<rparr>)
    | (Inr (reward, is_done), st3) \<Rightarrow>
        (let reward' = reward + (- sqrt (real (step_num st3))) in
         case set_last_action ''reward'' (LNum reward') st3 of
           Inl e \<Rightarrow> (Inl e, b\<lparr>base_env := st3\<rparr>)
         | Inr st4 \<Rightarrow>
             (Inr (last_scores st4, reward', is_done, []),
              b\<lparr>base_env := st4\<lparr>step_num := step_num st4 + 1\<rparr>\<rparr>)))
   = (case (case X of
        (Inl e, st3) \<Rightarrow> (Inl e, st3)
      | (Inr (reward, is_done), st3) \<Rightarrow>
          (let reward' = reward + (- sqrt (real (step_num st3))) in
           case set_last_action ''reward'' (LNum reward') st3 of
             Inl e \<Rightarrow> (Inl e, st3)
           | Inr st4 \<Rightarrow>
               (Inr (last_scores st4, reward', is_done, []),
                st4\<lparr>step_num := step_num st4 + 1\<rparr>)))
      of (out, st') \<Rightarrow> (out, b\<lparr>base_env := st'\<rparr>))"
proof (cases X)
  case (Pair r s)
  show ?thesis
  proof (cases r)
    case (Inl e)
    with Pair show ?thesis by simp
  next
    case (Inr p)
    obtain reward is_done where p: "p = (reward, is_done)" by (cases p)
    show ?thesis
      unfolding Pair Inr p
      by (cases "set_last_action ''reward'' (LNum (reward + - sqrt (real (step_num s)))) s")
         (simp_all add: Let_def)
  qed
qed

lemma bypass_test_path:
  assumes "action ! 0 \<noteq> 0"
  shows "bypass_step est b action u z =
         (case step est (base_env b) action z of (out, st') \<Rightarrow> (out, b\<lparr>base_env := st'\<rparr>))"
proof (cases "contains (action_space (base_env b)) action")
  case False
  then show ?thesis by (simp add: step_def bypass_step_def Let_def)
next
  case True
  show ?thesis
    unfolding step_def bypass_step_def Let_def
    using True assms
    by (simp only: if_True if_False not_True_eq_False not_False_eq_True simp_thms finish_lift[unfolded Let_def])
qed

lemma contains_update3:
  assumes "contains (action_space st) action" "k < learning_type_number st"
  shows "contains (action_space st) (action[3 := int k])"
  using assms
  by (auto simp: contains_iff action_space_def nth_list_update)

lemma update3_nth:
  assumes "length action = 5"
  shows "(action[3 := v]) ! 0 = action ! 0" "(action[3 := v]) ! 1 = action ! 1"
        "(action[3 := v]) ! 2 = action ! 2" "(action[3 := v]) ! 3 = v"
        "(action[3 := v]) ! 4 = action ! 4"
  using assms by simp_all

lemma bypass_train_ignores_type:
  assumes "action ! 0 = 0" "contains (action_space (base_env b)) action"
      and "k < learning_type_number (base_env b)"
  shows "bypass_step est b (action[3 := int k]) u z = bypass_step est b action u z"
proof -
  have c: "contains (action_space (base_env b)) (action[3 := int k])"
    using assms by (simp add: contains_update3)
  have l: "length action = 5" using assms(2) by (simp add: contains_iff action_space_def)
  show ?thesis
    unfolding bypass_step_def Let_def
    by (simp only: update3_nth[OF l] c assms(1,2))
qed

lemma bypass_train_uses_draw:
  assumes "action ! 0 = 0" "contains (action_space (base_env b)) action"
      and "random_choice (difficulties_levels (base_env b)) (prob_ratio b) u = Inr c"
      and "c < learning_type_number (base_env b)"
  shows "bypass_step est b action u z =
         (case step est (base_env b) (action[3 := int c]) z of
            (out, st') \<Rightarrow> (out, b\<lparr>base_env := st'\<rparr>))"
proof -
  have c: "contains (action_space (base_env b)) (action[3 := int c])"
    using assms by (simp add: contains_update3)
  have l: "length action = 5" using assms(2) by (simp add: contains_iff action_space_def)
  have d: "difficulties_levels (base_env b\<lparr>last_action := la\<rparr>) = difficulties_levels (base_env b)"
    for la by simp
  show ?thesis
    unfolding step_def bypass_step_def Let_def
    by (simp only: update3_nth[OF l] c assms(1,2,3) d if_True if_False not_True_eq_False
        not_False_eq_True simp_thms sum.case nat_int finish_lift[unfolded Let_def])
qed

lemma default_choice:
  assumes "0 \<le> u" "u < 1"
  shows "random_choice 3 [8 / 10, 1 / 10, 1 / 10] u
         = Inr (if u < 8 / 10 then 0 else if u < 9 / 10 then 1 else 2)"
  using assms by (simp add: random_choice_def Let_def)

subsection \<open>Evaluation on concrete environments\<close>

lemma upt_small: "[0..<1] = [0]" "[0..<2] = [0, 1]" "[0..<3] = [0, 1, 2]" "[0..<4] = [0, 1, 2, 3]"
  by (simp_all add: upt_rec)

lemma length_mean_skills_gains: "length (get_mean_skills_gains S L dr) = 3"
  by (simp add: get_mean_skills_gains_def Let_def)

lemma example_gains:
  "get_mean_skills_gains S L example_draws
     = [[2 / 10, 2 / 10, 3], [2 / 10, 2 / 10, 3], [2 / 10, 2 / 10, 3]]"
  by (simp add: get_mean_skills_gains_def Let_def upt_small example_draws_def normal_def)

lemmas constants_eval =
  MEAN_START_SKILL_LEVEL_def STD_START_SKILL_LEVEL_def STUDENT_SKILL_GAIN_STD_def
  TEST_SCORE_STD_def TARGET_SCORE_def REVIEW_RATIO_def REWARD_FOR_ACHIEVING_TARGET_LEVEL_def
  REWARD_FOR_ACHIEVING_ALL_LEVELS_def PENALTY_FOR_UNNECESSARY_TEST_def TIME_PENALTY_FOR_TEST_def
  GAIN_MULTIPLIER_FOR_TEST_def NOT_ADAPTED_DIFFICULTY_PENALTY_def PROPER_LEARNING_TYPE_REWARD_def

lemmas access_eval =
  getitem_def py_getitem_def getrow_def setrow_def getitem2_def getitem3_def setitem3_def
  counts_slice_def gains_start_def gains_slice_def set_gains_slice_def zero_counts_slice_def
  layer0_def top_scores_def average2_def average_rows_def normal_def argmax_def gain_totals_def
  set_last_action_def deref_def

lemmas env_eval =
  init_def start_skills_def linspace_0_100_def example_gains upt_small contains_def
  action_space_def get_proper_difficulty_def get_scaled_mean_score_def
  get_too_hard_test_mean_def get_proper_test_mean_def get_test_mean_def
  get_not_adapted_learning_penalty_def get_mean_type_gain_def test_reward_def
  example_estimate_def Let_def eval_nat_numeral

lemma example_trained_eq:
  "example_trained =
     \<lparr>difficulties_levels = 2, learning_type_number = 2,
        num_subjects = 1, skills_levels = [101 / 5],
        last_scores = [[[0, 0, 0, 1, 0, 0], [0, 0, 0, 0, 0, 0]]],
        mean_skill_gains = [[1 / 5, 1 / 5, 3], [1 / 5, 1 / 5, 3], [1 / 5, 1 / 5, 3]],
        difficulties_thresholds = [0, 50], review_ratio = 1 / 3,
        cumulative_train_time = [2], train_counter = [[[0, 0], [0, 0]]],
        episode = 0, step_num = 1,
        last_action = Some
           [(''action'', LStr ''train''), (''subject'', LInt 1),
            (''difficulty'', LInt 1), (''improvement'', LNum (1 / 5)),
            (''learning_type'', LInt 2), (''reward'', LNum 0)]\<rparr>"
  unfolding example_trained_def
  by (simp add: step_def train_def env_eval access_eval constants_eval)

lemma example_done_step:
  "step example_estimate example_skilled [1, 0, 0, 0, 0] 0 =
     (Inr ([[[96, 96, 0, 0]]], 1998, True, []),
      \<lparr>difficulties_levels = 1, learning_type_number = 1,
         num_subjects = 1, skills_levels = [96],
         last_scores = [[[96, 96, 0, 0]]],
         mean_skill_gains = [[1 / 5, 1 / 5, 3], [1 / 5, 1 / 5, 3], [1 / 5, 1 / 5, 3]],
         difficulties_thresholds = [0], review_ratio = 1 / 2,
         cumulative_train_time = [0], train_counter = [[[0]]], episode = 0,
         step_num = 1,
         last_action = Some
            [(''action'', LStr ''test''), (''subject'', LInt 1),
             (''difficulty'', LInt 1), (''test_score'', LNum 96),
             (''reward'', LNum 1998)]\<rparr>)"
  unfolding example_skilled_def
  by (simp add: step_def test_def sample_score_def env_eval access_eval constants_eval)

lemma example_two_eq:
  "example_two =
     \<lparr>difficulties_levels = 2, learning_type_number = 1,
        num_subjects = 2, skills_levels = [101 / 5, 20],
        last_scores = [[[0, 0, 1, 0], [0, 0, 0, 0]], [[0, 0, 0, 0], [0, 0, 0, 0]]],
        mean_skill_gains = [[1 / 5, 1 / 5, 3], [1 / 5, 1 / 5, 3], [1 / 5, 1 / 5, 3]],
        difficulties_thresholds = [0, 50], review_ratio = 1 / 3,
        cumulative_train_time = [1, 0], train_counter = [[[0], [0]], [[0], [0]]],
        episode = 0, step_num = 1,
        last_action = Some
           [(''action'', LStr ''train''), (''subject'', LInt 1),
            (''difficulty'', LInt 1), (''improvement'', LNum (1 / 5)),
            (''learning_type'', LInt 1), (''reward'', LNum 0)]\<rparr>"
  unfolding example_two_def
  by (simp add: step_def train_def env_eval access_eval constants_eval)

lemma example_done_eq:
  "example_done =
      \<lparr>difficulties_levels = 1, learning_type_number = 1,
         num_subjects = 1, skills_levels = [96],
         last_scores = [[[96, 96, 0, 0]]],
         mean_skill_gains = [[1 / 5, 1 / 5, 3], [1 / 5, 1 / 5, 3], [1 / 5, 1 / 5, 3]],
         difficulties_thresholds = [0], review_ratio = 1 / 2,
         cumulative_train_time = [0], train_counter = [[[0]]], episode = 0,
         step_num = 1,
         last_action = Some
            [(''action'', LStr ''test''), (''subject'', LInt 1),
             (''difficulty'', LInt 1), (''test_score'', LNum 96),
             (''reward'', LNum 1998)]\<rparr>"
  by (simp add: example_done_def example_done_step)

lemma example_estimate_length: "\<forall>m. length (example_estimate m REVIEW_RATIO) = length m"
  by (simp add: example_estimate_def)

lemma example_wide_trained:
  "step example_estimate example_wide [0, 0, 0, 0, 1] 0 =
     (Inr ([[[0, 0, 0, 0, 0, 0, 0, 0], [0, 0, 1, 0, 0, 0, 0, 0]]], 0, False, []),
      \<lparr>difficulties_levels = 2, learning_type_number = 3, num_subjects = 1,
         skills_levels = [401 / 20],
         last_scores = [[[0, 0, 0, 0, 0, 0, 0, 0], [0, 0, 1, 0, 0, 0, 0, 0]]],
         mean_skill_gains = [[1 / 5, 1 / 5, 3], [1 / 5, 1 / 5, 3], [1 / 5, 1 / 5, 3]],
         difficulties_thresholds = [0, 50], review_ratio = 1 / 3,
         cumulative_train_time = [1],
         train_counter = [[[0, 0, 0], [0, 0, 0]]], episode = 0, step_num = 1,
         last_action = Some
            [(''action'', LStr ''train''), (''subject'', LInt 1),
             (''difficulty'', LInt 2), (''improvement'', LNum (1 / 20)),
             (''learning_type'', LInt 1), (''reward'', LNum 0)]\<rparr>)"
  unfolding example_wide_def
  by (simp add: step_def train_def env_eval access_eval constants_eval)

lemma example_untrained_eq:
  "example_untrained =
     \<lparr>difficulties_levels = 2, learning_type_number = 3, num_subjects = 1,
        skills_levels = [401 / 20],
        last_scores = [[[401 / 10, 401 / 10, 0, 0, 0, 0, 0, 0], [0, 0, 1, 0, 0, 0, 0, 0]]],
        mean_skill_gains = [[1 / 5, 1 / 5, 3], [1 / 5, 1 / 5, 3], [1 / 5, 1 / 5, 3]],
        difficulties_thresholds = [0, 50], review_ratio = 1 / 3,
        cumulative_train_time = [0],
        train_counter = [[[0, 0, 0], [0, 0, 0]]], episode = 0, step_num = 2,
        last_action = Some
           [(''action'', LStr ''test''), (''subject'', LInt 1),
            (''difficulty'', LInt 1), (''test_score'', LNum (401 / 10)),
            (''reward'', LNum (- 3))]\<rparr>"
  unfolding example_untrained_def example_wide_trained
  by (simp add: step_def test_def sample_score_def env_eval access_eval constants_eval)

subsection \<open>The draw of the biased variant\<close>

lemma example_draw:
  "random_choice (difficulties_levels (base_env example_bypass32))
     (prob_ratio example_bypass32) (95 / 100) = Inr 2"
  by (simp add: example_bypass32_def example_env32_def bypass_init_def init_def
      random_choice_def Let_def)

text \<open>
  C8. The draw that replaces the learning type is taken over
  \<^verbatim>\<open>range(self.difficulties_levels)\<close>, not over the learning types. In the variant of
  an environment with three difficulty levels and two learning types, the uniform
  draw 0.95 under the default probabilities 0.8, 0.1, 0.1 selects 2, which is not a
  learning type: the training step runs all the same and counts the training in
  the field at index 4 of the row, which is the first gain field, while the base
  step on the action with learning type 2 rejects it. In the variant of an
  environment with two difficulty levels and three learning types, every training
  step fails with \<^verbatim>\<open>ValueError\<close>, because three probabilities do not fit two
  values.
\<close>

theorem bypass_draw_over_difficulties:
  "learning_type_number (base_env example_bypass32) = 2
   \<and> difficulties_levels (base_env example_bypass32) = 3
   \<and> fst (bypass_step example_estimate example_bypass32 [0, 0, 0, 0, 0] (95 / 100) 0)
       = Inr ([[[0, 0, 0, 0, 1, 0], [0, 0, 0, 0, 0, 0], [0, 0, 0, 0, 0, 0]]], 0, False, [])
   \<and> last_action
         (base_env (snd (bypass_step example_estimate example_bypass32 [0, 0, 0, 0, 0]
                           (95 / 100) 0)))
       = Some [(''action'', LStr ''train''), (''subject'', LInt 1), (''difficulty'', LInt 1),
               (''improvement'', LNum 3), (''learning_type'', LInt 3), (''reward'', LNum 0)]
   \<and> step est (base_env example_bypass32) ([0, 0, 0, 0, 0][3 := 2]) z
       = (Inl AssertionError, base_env example_bypass32)
   \<and> fst (bypass_step est example_bypass23 [0, 0, 0, 0, 0] u z) = Inl ValueError"
proof -
  have a: "learning_type_number (base_env example_bypass32) = 2"
    "difficulties_levels (base_env example_bypass32) = 3"
    by (simp_all add: example_bypass32_def example_env32_def bypass_init_def init_def)
  have c: "bypass_step example_estimate example_bypass32 [0, 0, 0, 0, 0] (95 / 100) 0
       = (Inr ([[[0, 0, 0, 0, 1, 0], [0, 0, 0, 0, 0, 0], [0, 0, 0, 0, 0, 0]]], 0, False, []),
          \<lparr>base_env =
             \<lparr>difficulties_levels = 3, learning_type_number = 2, num_subjects = 1,
                skills_levels = [23],
                last_scores = [[[0, 0, 0, 0, 1, 0], [0, 0, 0, 0, 0, 0], [0, 0, 0, 0, 0, 0]]],
                mean_skill_gains = [[1 / 5, 1 / 5, 3], [1 / 5, 1 / 5, 3], [1 / 5, 1 / 5, 3]],
                difficulties_thresholds = [0, 100 / 3, 200 / 3],
                review_ratio = 1 / 4, cumulative_train_time = [3],
                train_counter = [[[0, 0], [0, 0], [0, 0]]], episode = 0, step_num = 1,
                last_action = Some
                  [(''action'', LStr ''train''), (''subject'', LInt 1),
                   (''difficulty'', LInt 1), (''improvement'', LNum 3),
                   (''learning_type'', LInt 3), (''reward'', LNum 0)]\<rparr>,
           prob_ratio = [4 / 5, 1 / 10, 1 / 10]\<rparr>)"
    unfolding example_bypass32_def example_env32_def bypass_init_def
    by (simp add: bypass_step_def random_choice_def train_def env_eval access_eval
        constants_eval)
  have d: "step est (base_env example_bypass32) ([0, 0, 0, 0, 0][3 := 2]) z
       = (Inl AssertionError, base_env example_bypass32)"
    unfolding example_bypass32_def example_env32_def bypass_init_def
    by (simp add: step_def init_def contains_def action_space_def Let_def)
  have e: "fst (bypass_step est example_bypass23 [0, 0, 0, 0, 0] u z) = Inl ValueError"
    unfolding example_bypass23_def example_wide_def bypass_init_def
    by (simp add: bypass_step_def random_choice_def init_def contains_def action_space_def
        Let_def)
  from a d e show ?thesis unfolding c by simp
qed

subsection \<open>The skill gain profile\<close>

text \<open>
  C5. The generator does not use its two arguments: whatever sizes it is given, it
  returns three rows of three entries. When the coin is at most one half, the two
  other types are drawn around 0.2, not around 0.3 as on the other side: with all
  standard normal draws at zero the rows are 0.2, 0.2, 3. In an environment built
  for four subjects, a training step on the fourth subject therefore fails with
  \<^verbatim>\<open>IndexError\<close> on \<^verbatim>\<open>self.mean_skill_gains[subject, learning_type]\<close>.
\<close>

theorem gains_profile_fixed_shape:
  "length (get_mean_skills_gains S L dr) = 3
   \<and> list_all (\<lambda>row. length row = 3) (get_mean_skills_gains S L dr)
   \<and> get_mean_skills_gains 4 3 example_draws
       = [[2 / 10, 2 / 10, 3], [2 / 10, 2 / 10, 3], [2 / 10, 2 / 10, 3]]
   \<and> fst (step est example_env4 [0, 3, 0, 0, 0] z) = Inl IndexError"
proof -
  have a: "length (get_mean_skills_gains S L dr) = 3"
    by (rule length_mean_skills_gains)
  have b: "list_all (\<lambda>row. length row = 3) (get_mean_skills_gains S L dr)"
    by (simp add: get_mean_skills_gains_def Let_def upt_small)
  have c: "get_mean_skills_gains 4 3 example_draws
       = [[2 / 10, 2 / 10, 3], [2 / 10, 2 / 10, 3], [2 / 10, 2 / 10, 3]]"
    by (simp add: get_mean_skills_gains_def Let_def upt_small example_draws_def normal_def)
  have d: "fst (step est example_env4 [0, 3, 0, 0, 0] z) = Inl IndexError"
    by (simp add: step_def Let_def contains_def action_space_def example_env4_def init_def
        train_def getitem2_def length_mean_skills_gains)
  from a b c d show ?thesis by blast
qed

subsection \<open>The cumulative train counter\<close>

text \<open>
  C6. After one training of subject 0 with learning type 1 at difficulty 0, the
  counts at the cell are 0 and 1, so the shares are 0 and 1. Gain attribution at
  that cell then adds the share of the last learning type, 1, to every entry
  of the subject's counter rows 0 and 1, and not each type's own share to the
  entries of the tested cell.
\<close>

theorem train_counter_gets_last_share:
  "train_counter example_trained = [[[0, 0], [0, 0]]]
   \<and> counts_slice 2 (last_scores example_trained ! 0 ! 0) = [0, 1]
   \<and> train_counter (snd (get_mean_type_gain example_trained 0 0 1)) = [[[1, 1], [1, 1]]]"
  by (simp add: example_trained_eq env_eval access_eval)

subsection \<open>The bounds of the latent skill\<close>

text \<open>
  C4. The constructor and \<^verbatim>\<open>reset\<close> clamp the starting skill at zero from below
  only: a standard normal draw of 9 gives a skill of 110, above 100.
\<close>

theorem start_skill_above_100:
  "skills_levels (init 1 3 3 (\<lambda>i. 9) dr) = [110]
   \<and> skills_levels (snd (reset (init 1 3 3 (\<lambda>i. 0) dr) (\<lambda>i. 9) dr')) = [110]"
  by (simp add: init_def reset_def Let_def start_skills_def normal_def upt_small
      MEAN_START_SKILL_LEVEL_def STD_START_SKILL_LEVEL_def)

subsection \<open>The completion flag\<close>

text \<open>
  Against C1 as stated: a test at a skill of 96 completes the episode (reward
  \<open>- 2 + 2000\<close>); a training step taken in the state it leaves returns a flag
  that is not set, although every subject's score at the highest difficulty is 96.
\<close>

theorem done_not_set_by_training_counterexample:
  "fst (step example_estimate example_skilled [1, 0, 0, 0, 0] 0)
     = Inr ([[[96, 96, 0, 0]]], 1998, True, [])
   \<and> fst (step example_estimate example_done [0, 0, 0, 0, 0] 0)
     = Inr ([[[96, 96, 1, 0]]], - 1, False, [])
   \<and> top_scores (last_scores (snd (step example_estimate example_done [0, 0, 0, 0, 0] 0)))
     = Inr [96]
   \<and> list_all (\<lambda>v. v > TARGET_SCORE) [96]"
  unfolding example_done_def example_done_step
  by (simp add: step_def train_def env_eval access_eval constants_eval)

text \<open>
  Neither the sampling nor the gain attribution nor an entry of \<^verbatim>\<open>last_action\<close>
  changes the step number, so \<^verbatim>\<open>_test\<close> leaves it as it was.
\<close>

lemma sample_score_step_num:
  "step_num (snd (sample_score est st s d z)) = step_num st"
  by (simp add: sample_score_def Let_def split: sum.split)

lemma get_mean_type_gain_step_num:
  "step_num (snd (get_mean_type_gain st s d i)) = step_num st"
  by (simp add: get_mean_type_gain_def Let_def split: sum.split option.split)

lemma set_last_action_frame:
  "set_last_action k v st = Inr st' \<Longrightarrow>
   step_num st' = step_num st \<and> last_scores st' = last_scores st"
  by (auto simp: set_last_action_def split: option.splits)

lemma test_step_num:
  "step_num (snd (test est st s d z)) = step_num st"
proof -
  obtain o2 st2 where a: "sample_score est st s d z = (o2, st2)"
    by (cases "sample_score est st s d z")
  have n2: "step_num st2 = step_num st"
    using sample_score_step_num[of est st s d z] a by simp
  show ?thesis
  proof (cases o2)
    case (Inl e)
    with a n2 show ?thesis by (simp add: test_def)
  next
    case (Inr p)
    obtain prev impr where p: "p = (prev, impr)" by (cases p)
    obtain o3 st3 where b: "get_mean_type_gain st2 s d impr = (o3, st3)"
      by (cases "get_mean_type_gain st2 s d impr")
    have n3: "step_num st3 = step_num st"
      using get_mean_type_gain_step_num[of st2 s d impr] b n2 by simp
    show ?thesis
    proof (cases o3)
      case (Inl e)
      with a Inr p b n3 show ?thesis by (simp add: test_def)
    next
      case mtg: (Inr m)
      obtain o4 ls4 where c: "propagate_gains (learning_type_number st3) (num_subjects st3) s m
             [0..<difficulties_levels st3] (last_scores st3) = (o4, ls4)"
        by (cases "propagate_gains (learning_type_number st3) (num_subjects st3) s m
             [0..<difficulties_levels st3] (last_scores st3)")
      show ?thesis
        using a Inr p b mtg c n3
        by (auto simp: test_def Let_def split: option.splits sum.splits
            dest!: set_last_action_frame)
    qed
  qed
qed

text \<open>
  C1, as amended. When \<^verbatim>\<open>step\<close> returns: after a training action the flag is not
  set; after a test action the flag is set exactly when every subject's score at
  the highest difficulty, read in the state the step leaves, exceeds
  \<^verbatim>\<open>TARGET_SCORE\<close>, which is 95, and the reward is what \<^verbatim>\<open>_test\<close> returned, plus
  \<^verbatim>\<open>REWARD_FOR_ACHIEVING_ALL_LEVELS\<close>, which is 2000, when the flag is set, minus the
  square root of the step number.
\<close>

theorem done_flag_of_step:
  assumes run: "step est st action z = (Inr (obs, reward, is_done, info), st')"
  shows "(action ! 0 = 0 \<longrightarrow> \<not> is_done)
       \<and> (action ! 0 \<noteq> 0 \<longrightarrow>
            (\<exists>tops. top_scores (last_scores st') = Inr tops
                    \<and> (is_done \<longleftrightarrow> list_all (\<lambda>v. TARGET_SCORE < v) tops))
          \<and> (\<exists>r_test st1.
                 test est
                   (st\<lparr>last_action := Some
                       [(''action'', LStr ''test''),
                        (''subject'', LInt (int (nat (action ! 1)) + 1)),
                        (''difficulty'', LInt (int (nat (action ! 2)) + 1))]\<rparr>)
                   (nat (action ! 1)) (nat (action ! 2)) z
                   = (Inr r_test, st1)
               \<and> reward = r_test
                     + (if is_done then REWARD_FOR_ACHIEVING_ALL_LEVELS else 0)
                     - sqrt (real (step_num st))))
       \<and> TARGET_SCORE = 95 \<and> REWARD_FOR_ACHIEVING_ALL_LEVELS = 2000"
proof -
  have c: "contains (action_space st) action"
    using run by (cases "contains (action_space st) action") (simp_all add: step_def)
  define subject where "subject = nat (action ! 1)"
  define la where "la = Some
      [(''action'', LStr (if action ! 0 \<noteq> 0 then ''test'' else ''train'')),
       (''subject'', LInt (int subject + 1)),
       (''difficulty'',
        LInt (int (if action ! 0 \<noteq> 0 then nat (action ! 2) else nat (action ! 4)) + 1))]"
  define st0 where "st0 = st\<lparr>last_action := la\<rparr>"
  define fin where "fin = (\<lambda>X :: (py_error + real \<times> bool) \<times> student_env.
      case X of
        (Inl e, st3) \<Rightarrow> (Inl e, st3)
      | (Inr (reward, is_done), st3) \<Rightarrow>
          (case set_last_action ''reward'' (LNum (reward + (- sqrt (real (step_num st3))))) st3 of
             Inl e \<Rightarrow> (Inl e, st3)
           | Inr st4 \<Rightarrow>
               (Inr (last_scores st4, reward + (- sqrt (real (step_num st3))), is_done,
                     [] :: action_record),
                st4\<lparr>step_num := step_num st4 + 1\<rparr>)))"
  have fin_out: "rw = r + (- sqrt (real (step_num s3))) \<and> dn = b
                 \<and> last_scores s' = last_scores s3"
    if "fin (Inr (r, b), s3) = (Inr (ob, rw, dn, inf), s')" for r b s3 ob rw dn inf s'
    using that
    by (auto simp: fin_def split: sum.splits dest!: set_last_action_frame)
  have fin_err: "False" if "fin (Inl e, s3) = (Inr x, s')" for e s3 x s'
    using that by (simp add: fin_def)
  have cv: "TARGET_SCORE = 95 \<and> REWARD_FOR_ACHIEVING_ALL_LEVELS = 2000"
    by (simp add: TARGET_SCORE_def REWARD_FOR_ACHIEVING_ALL_LEVELS_def)
  show ?thesis
  proof (cases "action ! 0 = 0")
    case True
    have s: "step est st action z =
        fin (case train est st0 subject (nat (action ! 3)) (nat (action ! 4)) z of
               (Inl e, st1) \<Rightarrow> (Inl e, st1)
             | (Inr reward, st1) \<Rightarrow> (Inr (reward, False), st1))"
      unfolding step_def fin_def st0_def la_def subject_def Let_def
      using c True
      by (simp only: if_True if_False not_True_eq_False not_False_eq_True simp_thms)
    obtain o1 st1 where
      t: "train est st0 subject (nat (action ! 3)) (nat (action ! 4)) z = (o1, st1)"
      by (cases "train est st0 subject (nat (action ! 3)) (nat (action ! 4)) z")
    have eq: "fin (case (o1, st1) of
               (Inl e, st1) \<Rightarrow> (Inl e, st1)
             | (Inr reward, st1) \<Rightarrow> (Inr (reward, False), st1))
          = (Inr (obs, reward, is_done, info), st')"
      using run unfolding s t .
    have "\<not> is_done"
    proof (cases o1)
      case (Inl e)
      with eq have "fin (Inl e, st1) = (Inr (obs, reward, is_done, info), st')" by simp
      from fin_err[OF this] show ?thesis ..
    next
      case (Inr r)
      with eq have "fin (Inr (r, False), st1) = (Inr (obs, reward, is_done, info), st')"
        by simp
      from fin_out[OF this] show ?thesis by simp
    qed
    with True cv show ?thesis by simp
  next
    case False
    define completion where "completion = (\<lambda>(r :: real) (st1 :: student_env).
        if subject < length (cumulative_train_time st1) then
          (case top_scores (last_scores (st1\<lparr>cumulative_train_time :=
                   (cumulative_train_time st1)[subject := 0]\<rparr>)) of
             Inl e \<Rightarrow>
               (Inl e, st1\<lparr>cumulative_train_time := (cumulative_train_time st1)[subject := 0]\<rparr>)
           | Inr tops \<Rightarrow>
               if list_all (\<lambda>v. v > TARGET_SCORE) tops
               then (Inr (r + REWARD_FOR_ACHIEVING_ALL_LEVELS, True),
                     st1\<lparr>cumulative_train_time := (cumulative_train_time st1)[subject := 0]\<rparr>)
               else (Inr (r, False),
                     st1\<lparr>cumulative_train_time := (cumulative_train_time st1)[subject := 0]\<rparr>))
        else (Inl IndexError, st1))"
    have s: "step est st action z =
        fin (case test est st0 subject (nat (action ! 2)) z of
               (Inl e, st1) \<Rightarrow> (Inl e, st1)
             | (Inr r, st1) \<Rightarrow> completion r st1)"
      unfolding step_def fin_def st0_def la_def subject_def completion_def Let_def
      using c False
      by (simp only: if_True if_False not_True_eq_False not_False_eq_True simp_thms)
    obtain o1 st1 where t: "test est st0 subject (nat (action ! 2)) z = (o1, st1)"
      by (cases "test est st0 subject (nat (action ! 2)) z")
    have eq: "fin (case (o1, st1) of
               (Inl e, st1) \<Rightarrow> (Inl e, st1)
             | (Inr r, st1) \<Rightarrow> completion r st1)
          = (Inr (obs, reward, is_done, info), st')"
      using run unfolding s t .
    have n1: "step_num st1 = step_num st"
      using test_step_num[of est st0 subject "nat (action ! 2)" z] t by (simp add: st0_def)
    have "(\<exists>tops. top_scores (last_scores st') = Inr tops
                    \<and> (is_done \<longleftrightarrow> list_all (\<lambda>v. TARGET_SCORE < v) tops))
          \<and> (\<exists>r_test. o1 = Inr r_test
               \<and> reward = r_test
                     + (if is_done then REWARD_FOR_ACHIEVING_ALL_LEVELS else 0)
                     - sqrt (real (step_num st)))"
    proof (cases o1)
      case (Inl e)
      with eq have "fin (Inl e, st1) = (Inr (obs, reward, is_done, info), st')" by simp
      from fin_err[OF this] show ?thesis ..
    next
      case (Inr r)
      with eq have eq': "fin (completion r st1) = (Inr (obs, reward, is_done, info), st')"
        by simp
      show ?thesis
      proof (cases "subject < length (cumulative_train_time st1)")
        case short: False
        with eq' have "fin (Inl IndexError, st1) = (Inr (obs, reward, is_done, info), st')"
          by (simp add: completion_def)
        from fin_err[OF this] show ?thesis ..
      next
        case True
        define st2 where "st2 = st1\<lparr>cumulative_train_time :=
                                  (cumulative_train_time st1)[subject := 0]\<rparr>"
        have n2: "step_num st2 = step_num st" by (simp add: st2_def n1)
        show ?thesis
        proof (cases "top_scores (last_scores st2)")
          case (Inl e)
          with eq' True have "fin (Inl e, st2) = (Inr (obs, reward, is_done, info), st')"
            by (simp add: completion_def st2_def)
          from fin_err[OF this] show ?thesis ..
        next
          case tops: (Inr tops)
          show ?thesis
          proof (cases "list_all (\<lambda>v. v > TARGET_SCORE) tops")
            case all: True
            with eq' True tops
            have "fin (Inr (r + REWARD_FOR_ACHIEVING_ALL_LEVELS, True), st2)
                  = (Inr (obs, reward, is_done, info), st')"
              by (simp add: completion_def st2_def)
            from fin_out[OF this] tops all n2 Inr show ?thesis by simp
          next
            case notall: False
            with eq' True tops
            have "fin (Inr (r, False), st2) = (Inr (obs, reward, is_done, info), st')"
              by (simp add: completion_def st2_def)
            from fin_out[OF this] tops notall n2 Inr show ?thesis by simp
          qed
        qed
      qed
    qed
    with t have "(\<exists>tops. top_scores (last_scores st') = Inr tops
                    \<and> (is_done \<longleftrightarrow> list_all (\<lambda>v. TARGET_SCORE < v) tops))
          \<and> (\<exists>r_test st1.
                 test est st0 subject (nat (action ! 2)) z = (Inr r_test, st1)
               \<and> reward = r_test
                     + (if is_done then REWARD_FOR_ACHIEVING_ALL_LEVELS else 0)
                     - sqrt (real (step_num st)))"
      by blast
    with False cv show ?thesis
      unfolding st0_def la_def subject_def by simp
  qed
qed

theorem done_flag_of_step_witness:
  "step example_estimate example_skilled [1, 0, 0, 0, 0] 0
     = (Inr ([[[96, 96, 0, 0]]], 1998, True, []), example_done)
   \<and> top_scores (last_scores example_done) = Inr [96]
   \<and> list_all (\<lambda>v. TARGET_SCORE < v) [96]
   \<and> (\<exists>st1. test example_estimate
               (example_skilled\<lparr>last_action := Some
                  [(''action'', LStr ''test''), (''subject'', LInt 1),
                   (''difficulty'', LInt 1)]\<rparr>) 0 0 0 = (Inr (- 2), st1))
   \<and> (1998 :: real)
       = - 2 + REWARD_FOR_ACHIEVING_ALL_LEVELS - sqrt (real (step_num example_skilled))"
proof -
  have run: "step example_estimate example_skilled [1, 0, 0, 0, 0] 0
     = (Inr ([[[96, 96, 0, 0]]], 1998, True, []), example_done)"
    by (simp add: example_done_def example_done_step)
  have n: "step_num example_skilled = 0" by (simp add: example_skilled_def init_def)
  have tops: "top_scores (last_scores example_done) = Inr [96]"
    by (simp add: example_done_eq top_scores_def)
  from done_flag_of_step[OF run] tops
  have a: "list_all (\<lambda>v. TARGET_SCORE < v) [96]" by simp
  from done_flag_of_step[OF run] n
  obtain r_test st1 where
    t: "test example_estimate
          (example_skilled\<lparr>last_action := Some
             [(''action'', LStr ''test''), (''subject'', LInt 1),
              (''difficulty'', LInt 1)]\<rparr>) 0 0 0 = (Inr r_test, st1)"
    and r: "(1998 :: real) = r_test + REWARD_FOR_ACHIEVING_ALL_LEVELS"
    by auto
  from done_flag_of_step[OF run] have c: "REWARD_FOR_ACHIEVING_ALL_LEVELS = 2000" by simp
  from r c have "r_test = - 2" by simp
  with t run tops a n c show ?thesis by auto
qed

subsection \<open>The propagation loops of a test\<close>

lemma weighted_same: "weighted x x = x"
  by (simp add: weighted_def field_simps)

lemma map2_weighted_same: "map2 weighted g g = g"
  by (induction g) (simp_all add: weighted_same)

lemma gains_start_row: "0 < L \<Longrightarrow> length row = 2 * L + 2 \<Longrightarrow> gains_start L row = L + 2"
  by (simp add: gains_start_def)

lemma length_gains_slice:
  "0 < L \<Longrightarrow> length row = 2 * L + 2 \<Longrightarrow> length (gains_slice L row) = L"
  by (simp add: gains_slice_def gains_start_row)

lemma length_put_gains:
  "0 < L \<Longrightarrow> length row = 2 * L + 2 \<Longrightarrow> length g = L \<Longrightarrow> length (put_gains L g row) = 2 * L + 2"
  by (simp add: put_gains_def gains_start_row)

lemma length_blend_gains:
  "0 < L \<Longrightarrow> length row = 2 * L + 2 \<Longrightarrow> length g = L \<Longrightarrow> length (blend_gains L g row) = 2 * L + 2"
  by (simp add: blend_gains_def gains_start_row length_gains_slice)

lemma gains_put_gains:
  "0 < L \<Longrightarrow> length row = 2 * L + 2 \<Longrightarrow> length g = L \<Longrightarrow> gains_slice L (put_gains L g row) = g"
  by (simp add: gains_slice_def gains_start_def put_gains_def)

lemma gains_blend_gains:
  "0 < L \<Longrightarrow> length row = 2 * L + 2 \<Longrightarrow> length g = L \<Longrightarrow>
   gains_slice L (blend_gains L g row) = map2 weighted (gains_slice L row) g"
  by (simp add: gains_slice_def gains_start_def blend_gains_def)

lemma take_put_gains:
  "0 < L \<Longrightarrow> length row = 2 * L + 2 \<Longrightarrow> take (L + 2) (put_gains L g row) = take (L + 2) row"
  by (simp add: put_gains_def gains_start_row)

lemma take_blend_gains:
  "0 < L \<Longrightarrow> length row = 2 * L + 2 \<Longrightarrow> take (L + 2) (blend_gains L g row) = take (L + 2) row"
  by (simp add: blend_gains_def gains_start_row)

lemma blend_put_gains:
  "0 < L \<Longrightarrow> length row = 2 * L + 2 \<Longrightarrow> length g = L \<Longrightarrow>
   blend_gains L g (put_gains L g row) = put_gains L g row"
  by (simp add: blend_gains_def put_gains_def gains_slice_def gains_start_def map2_weighted_same)

lemma set_gains_slice_put:
  "0 < L \<Longrightarrow> length row = 2 * L + 2 \<Longrightarrow> length g = L \<Longrightarrow>
   set_gains_slice L row g = Inr (put_gains L g row)"
  by (simp add: set_gains_slice_def put_gains_def length_gains_slice Let_def)

lemma average_rows_weighted:
  "length a = length g \<Longrightarrow> average_rows a g 1 (1 / 2) = Inr (map2 weighted a g)"
  by (simp add: average_rows_def weighted_def)

lemma set_gains_slice_blend:
  "0 < L \<Longrightarrow> length row = 2 * L + 2 \<Longrightarrow> length g = L \<Longrightarrow>
   set_gains_slice L row (map2 weighted (gains_slice L row) g) = Inr (blend_gains L g row)"
  by (simp add: set_gains_slice_def blend_gains_def length_gains_slice Let_def)

lemma rect_length: "rect S D n a \<Longrightarrow> length a = S"
  by (simp add: rect_def)

lemma rect_rows: "rect S D n a \<Longrightarrow> s < S \<Longrightarrow> length (a ! s) = D"
  by (simp add: rect_def)

lemma rect_row_length:
  "rect S D n a \<Longrightarrow> s < S \<Longrightarrow> d < D \<Longrightarrow> length (a ! s ! d) = n"
  by (simp add: rect_def)

lemma nth_setrow:
  assumes "rect S D n a" "s' < S" "d' < D"
  shows "setrow a s d r ! s' ! d' = (if s' = s \<and> d' = d then r else a ! s' ! d')"
proof (cases "s' = s")
  case True
  show ?thesis
  proof (cases "d' = d")
    case True
    with \<open>s' = s\<close> assms show ?thesis
      by (simp add: setrow_def rect_length rect_rows)
  next
    case False
    with \<open>s' = s\<close> assms show ?thesis
      by (simp add: setrow_def rect_length rect_rows)
  qed
next
  case False
  with assms show ?thesis by (simp add: setrow_def)
qed

lemma rect_setrow:
  assumes "rect S D n a" "length r = n"
  shows "rect S D n (setrow a s d r)"
proof -
  have l: "length (setrow a s d r) = S"
    using assms(1) by (simp add: setrow_def rect_length)
  have r: "length (setrow a s d r ! s') = D" if "s' < S" for s'
    using assms(1) that by (cases "s' = s") (simp_all add: setrow_def rect_length rect_rows)
  have c: "length (setrow a s d r ! s' ! d') = n" if "s' < S" "d' < D" for s' d'
    using assms that by (simp add: nth_setrow rect_row_length)
  from l r c show ?thesis by (simp add: rect_def)
qed

lemma getrow_rect:
  "rect S D n a \<Longrightarrow> s < S \<Longrightarrow> d < D \<Longrightarrow> getrow a s d = Inr (a ! s ! d)"
  by (simp add: rect_def getrow_def)

lemma deref_in_range:
  assumes "deref L ls (View sv dv) = Inr g"
  shows "sv < length ls \<and> dv < length (ls ! sv) \<and> gains_slice L (ls ! sv ! dv) = g"
  using assms by (auto simp: deref_def getrow_def split: if_splits)

lemma deref_setrow:
  assumes r: "rect S D n ls" and s: "s < S" "d < D" and len: "length r = n"
      and dr: "deref L ls mtg = Inr g"
      and same: "mtg = View s d \<Longrightarrow> gains_slice L r = g"
  shows "deref L (setrow ls s d r) mtg = Inr g"
proof (cases mtg)
  case (Fresh v)
  with dr show ?thesis by (simp add: deref_def)
next
  case (View sv dv)
  from dr View have rng: "sv < length ls" "dv < length (ls ! sv)"
    and old: "gains_slice L (ls ! sv ! dv) = g"
    using deref_in_range by blast+
  have sv: "sv < S" using rng(1) r by (simp add: rect_length)
  have dv: "dv < D" using rng(2) r sv by (simp add: rect_rows)
  have r': "rect S D n (setrow ls s d r)" using r len by (rule rect_setrow)
  have "getrow (setrow ls s d r) sv dv = Inr (setrow ls s d r ! sv ! dv)"
    using r' sv dv by (rule getrow_rect)
  moreover have "gains_slice L (setrow ls s d r ! sv ! dv) = g"
  proof (cases "sv = s \<and> dv = d")
    case True
    then have "setrow ls s d r ! sv ! dv = r" using r sv dv by (simp add: nth_setrow)
    moreover have "gains_slice L r = g" using same View True by simp
    ultimately show ?thesis by simp
  next
    case False
    then have "setrow ls s d r ! sv ! dv = ls ! sv ! dv" using r sv dv by (auto simp: nth_setrow)
    with old show ?thesis by simp
  qed
  ultimately show ?thesis using View by (simp add: deref_def)
qed

lemma propagate_subjects_result:
  assumes "0 < L" "rect S D (2 * L + 2) ls" "d < D" "length g = L"
      and "deref L ls mtg = Inr g" "set ss \<subseteq> {..<S}" "distinct ss"
  shows "\<exists>ls'. propagate_subjects L mtg d ss ls = (None, ls')
           \<and> rect S D (2 * L + 2) ls' \<and> deref L ls' mtg = Inr g
           \<and> (\<forall>s' d'. s' < S \<longrightarrow> d' < D \<longrightarrow>
                 ls' ! s' ! d' = (if d' = d \<and> s' \<in> set ss
                                  then blend_gains L g (ls ! s' ! d') else ls ! s' ! d'))"
  using assms(2,5,6,7)
proof (induction ss arbitrary: ls)
  case Nil
  then show ?case by simp
next
  case (Cons s rest)
  note L = \<open>0 < L\<close> and d = \<open>d < D\<close> and g = \<open>length g = L\<close>
  have s: "s < S" using Cons.prems(3) by simp
  define row where "row = ls ! s ! d"
  have rl: "length row = 2 * L + 2"
    unfolding row_def using Cons.prems(1) s d by (rule rect_row_length)
  have gr: "getrow ls s d = Inr row"
    unfolding row_def using Cons.prems(1) s d by (rule getrow_rect)
  have av: "average_rows (gains_slice L row) g 1 (1 / 2) = Inr (map2 weighted (gains_slice L row) g)"
    using L rl g by (simp add: average_rows_weighted length_gains_slice)
  have sg: "set_gains_slice L row (map2 weighted (gains_slice L row) g) = Inr (blend_gains L g row)"
    using L rl g by (rule set_gains_slice_blend)
  define ls1 where "ls1 = setrow ls s d (blend_gains L g row)"
  have bl: "length (blend_gains L g row) = 2 * L + 2"
    using L rl g by (rule length_blend_gains)
  have r1: "rect S D (2 * L + 2) ls1"
    unfolding ls1_def using Cons.prems(1) bl by (rule rect_setrow)
  have same: "gains_slice L (blend_gains L g row) = g" if "mtg = View s d"
  proof -
    from that Cons.prems(2) have "gains_slice L row = g"
      unfolding row_def using deref_in_range by blast
    then show ?thesis using L rl g by (simp add: gains_blend_gains map2_weighted_same)
  qed
  have d1: "deref L ls1 mtg = Inr g"
    unfolding ls1_def using Cons.prems(1) s d bl Cons.prems(2) same by (rule deref_setrow)
  have rest: "set rest \<subseteq> {..<S}" "distinct rest" "s \<notin> set rest"
    using Cons.prems(3,4) by auto
  from Cons.IH[OF r1 d1 rest(1,2)] obtain ls' where
    run: "propagate_subjects L mtg d rest ls1 = (None, ls')"
    and r': "rect S D (2 * L + 2) ls'" and d': "deref L ls' mtg = Inr g"
    and pt: "\<And>s' d'. s' < S \<Longrightarrow> d' < D \<Longrightarrow>
               ls' ! s' ! d' = (if d' = d \<and> s' \<in> set rest
                                then blend_gains L g (ls1 ! s' ! d') else ls1 ! s' ! d')"
    by blast
  have step: "propagate_subjects L mtg d (s # rest) ls = (None, ls')"
    using gr Cons.prems(2) av sg run by (simp add: ls1_def)
  have pt1: "ls1 ! s' ! d' = (if s' = s \<and> d' = d then blend_gains L g row else ls ! s' ! d')"
    if "s' < S" "d' < D" for s' d'
    unfolding ls1_def using Cons.prems(1) that by (rule nth_setrow)
  have "ls' ! s' ! d' = (if d' = d \<and> s' \<in> set (s # rest)
                          then blend_gains L g (ls ! s' ! d') else ls ! s' ! d')"
    if "s' < S" "d' < D" for s' d'
    using pt[OF that] pt1[OF that] rest(3) by (auto simp: row_def)
  with step r' d' show ?case by blast
qed

lemma propagate_gains_result:
  assumes "0 < L" "rect S D (2 * L + 2) ls" "subject < S" "length g = L"
      and "deref L ls mtg = Inr g" "set ds \<subseteq> {..<D}" "distinct ds"
  shows "\<exists>ls'. propagate_gains L S subject mtg ds ls = (None, ls')
           \<and> rect S D (2 * L + 2) ls' \<and> deref L ls' mtg = Inr g
           \<and> (\<forall>s' d'. s' < S \<longrightarrow> d' < D \<longrightarrow>
                 ls' ! s' ! d' =
                   (if d' \<in> set ds
                    then (if s' = subject then put_gains L g (ls ! s' ! d')
                          else blend_gains L g (ls ! s' ! d'))
                    else ls ! s' ! d'))"
  using assms(2,5,6,7)
proof (induction ds arbitrary: ls)
  case Nil
  then show ?case by simp
next
  case (Cons d rest)
  note L = \<open>0 < L\<close> and sub = \<open>subject < S\<close> and g = \<open>length g = L\<close>
  have d: "d < D" using Cons.prems(3) by simp
  define row where "row = ls ! subject ! d"
  have rl: "length row = 2 * L + 2"
    unfolding row_def using Cons.prems(1) sub d by (rule rect_row_length)
  have gr: "getrow ls subject d = Inr row"
    unfolding row_def using Cons.prems(1) sub d by (rule getrow_rect)
  have sg: "set_gains_slice L row g = Inr (put_gains L g row)"
    using L rl g by (rule set_gains_slice_put)
  define lsa where "lsa = setrow ls subject d (put_gains L g row)"
  have pl: "length (put_gains L g row) = 2 * L + 2"
    using L rl g by (rule length_put_gains)
  have ra: "rect S D (2 * L + 2) lsa"
    unfolding lsa_def using Cons.prems(1) pl by (rule rect_setrow)
  have same: "gains_slice L (put_gains L g row) = g" if "mtg = View subject d"
    using L rl g by (rule gains_put_gains)
  have da: "deref L lsa mtg = Inr g"
    unfolding lsa_def using Cons.prems(1) sub d pl Cons.prems(2) same by (rule deref_setrow)
  have all: "set [0..<S] \<subseteq> {..<S}" "distinct [0..<S]" by auto
  from propagate_subjects_result[OF L ra d g da all] obtain lsb where
    inner: "propagate_subjects L mtg d [0..<S] lsa = (None, lsb)"
    and rb: "rect S D (2 * L + 2) lsb" and db: "deref L lsb mtg = Inr g"
    and ptb: "\<And>s' d'. s' < S \<Longrightarrow> d' < D \<Longrightarrow>
               lsb ! s' ! d' = (if d' = d \<and> s' \<in> set [0..<S]
                                then blend_gains L g (lsa ! s' ! d') else lsa ! s' ! d')"
    by blast
  have rest: "set rest \<subseteq> {..<D}" "distinct rest" "d \<notin> set rest"
    using Cons.prems(3,4) by auto
  from Cons.IH[OF rb db rest(1,2)] obtain ls' where
    run: "propagate_gains L S subject mtg rest lsb = (None, ls')"
    and r': "rect S D (2 * L + 2) ls'" and d': "deref L ls' mtg = Inr g"
    and pt: "\<And>s' d'. s' < S \<Longrightarrow> d' < D \<Longrightarrow>
               ls' ! s' ! d' =
                 (if d' \<in> set rest
                  then (if s' = subject then put_gains L g (lsb ! s' ! d')
                        else blend_gains L g (lsb ! s' ! d'))
                  else lsb ! s' ! d')"
    by blast
  have step: "propagate_gains L S subject mtg (d # rest) ls = (None, ls')"
    using gr Cons.prems(2) sg inner run by (simp add: lsa_def)
  have pta: "lsa ! s' ! d' = (if s' = subject \<and> d' = d then put_gains L g row else ls ! s' ! d')"
    if "s' < S" "d' < D" for s' d'
    unfolding lsa_def using Cons.prems(1) that by (rule nth_setrow)
  have bp: "blend_gains L g (put_gains L g row) = put_gains L g row"
    using L rl g by (rule blend_put_gains)
  have ptb': "lsb ! s' ! d' =
      (if d' = d then (if s' = subject then put_gains L g row else blend_gains L g (ls ! s' ! d'))
       else ls ! s' ! d')"
    if "s' < S" "d' < D" for s' d'
    using ptb[OF that] pta[OF that] that(1) bp by auto
  have "ls' ! s' ! d' =
      (if d' \<in> set (d # rest)
       then (if s' = subject then put_gains L g (ls ! s' ! d')
             else blend_gains L g (ls ! s' ! d'))
       else ls ! s' ! d')"
    if "s' < S" "d' < D" for s' d'
    using pt[OF that] ptb'[OF that] rest(3) by (auto simp: row_def)
  with step r' d' show ?case by blast
qed

subsection \<open>The stages of a test succeed on a well-shaped state\<close>

lemma get_test_mean_succeeds:
  assumes "subject < length (skills_levels st)"
      and "difficulty < length (difficulties_thresholds st)"
  shows "\<exists>m. get_test_mean st subject difficulty = Inr m"
proof -
  define skill where "skill = skills_levels st ! subject"
  define g where "g = get_proper_difficulty st skill"
  have hi: "g < int (length (difficulties_thresholds st))"
    unfolding g_def by (rule proper_difficulty_upper)
  have lo: "- 1 \<le> g" unfolding g_def get_proper_difficulty_def by simp
  have pos: "0 < length (difficulties_thresholds st)" using assms(2) by linarith
  have pos': "- int (length (difficulties_thresholds st)) \<le> - 1" using pos by linarith
  have a: "\<exists>t. py_getitem (difficulties_thresholds st) g = Inr t"
  proof (cases "0 \<le> g")
    case True
    with hi show ?thesis by (simp add: py_getitem_def)
  next
    case False
    with lo have "g = - 1" by linarith
    with pos' show ?thesis by (simp add: py_getitem_def)
  qed
  have b: "\<exists>t. py_getitem (difficulties_thresholds st) (int difficulty) = Inr t"
    using assms(2) by (simp add: py_getitem_def)
  have sk: "getitem (skills_levels st) subject = Inr skill"
    using assms(1) by (simp add: getitem_def skill_def)
  from a obtain t1 where t1: "py_getitem (difficulties_thresholds st) g = Inr t1" by blast
  from b obtain t2 where t2: "py_getitem (difficulties_thresholds st) (int difficulty) = Inr t2"
    by blast
  have hard: "\<exists>m. get_too_hard_test_mean st subject difficulty g = Inr m"
    by (simp add: get_too_hard_test_mean_def get_scaled_mean_score_def sk t1)
  have proper: "\<exists>m. get_proper_test_mean st subject difficulty = Inr m"
    by (simp add: get_proper_test_mean_def get_scaled_mean_score_def sk t2 Let_def)
  show ?thesis
    using hard proper
    by (simp add: get_test_mean_def sk Let_def g_def[symmetric])
qed

lemma layer0_rect:
  assumes "rect S D n a" "0 < n"
  shows "\<exists>m. layer0 a = Inr m \<and> length m = S"
proof -
  have "list_all (list_all (\<lambda>row. row \<noteq> [])) a"
    unfolding list_all_length
  proof (intro allI impI)
    fix s d assume s: "s < length a" and d: "d < length (a ! s)"
    have s': "s < S" using s assms(1) by (simp add: rect_length)
    have d': "d < D" using d assms(1) s' by (simp add: rect_rows)
    have "length (a ! s ! d) = n" using assms(1) s' d' by (rule rect_row_length)
    with assms(2) show "a ! s ! d \<noteq> []" by auto
  qed
  then show ?thesis using assms(1) by (simp add: layer0_def rect_length)
qed

lemma getitem3_rect:
  "rect S D n a \<Longrightarrow> s < S \<Longrightarrow> d < D \<Longrightarrow> k < n \<Longrightarrow> getitem3 a s d k = Inr (a ! s ! d ! k)"
  by (simp add: getitem3_def rect_length rect_rows rect_row_length)

lemma setitem3_rect:
  "rect S D n a \<Longrightarrow> s < S \<Longrightarrow> d < D \<Longrightarrow> k < n \<Longrightarrow>
   setitem3 a s d k v = Inr (setrow a s d ((a ! s ! d)[k := v]))"
  by (simp add: setitem3_def setrow_def rect_length rect_rows rect_row_length)

lemma sample_score_unfold:
  assumes ok: "shapes_ok st"
      and s: "subject < num_subjects st" and d: "difficulty < difficulties_levels st"
  shows "\<exists>row' before after.
           length row' = 2 * learning_type_number st + 2
         \<and> drop 2 row' = drop 2 (last_scores st ! subject ! difficulty)
         \<and> 0 \<le> row' ! 0 \<and> row' ! 0 \<le> 100
         \<and> length before = num_subjects st \<and> length after = num_subjects st
         \<and> sample_score est st subject difficulty z =
             (case getitem (est after REVIEW_RATIO) subject of
                Inl e \<Rightarrow>
                  (Inl e, st\<lparr>last_scores := setrow (last_scores st) subject difficulty row'\<rparr>)
              | Inr estimate_after \<Rightarrow>
                  (case getitem (est before REVIEW_RATIO) subject of
                     Inl e \<Rightarrow>
                       (Inl e, st\<lparr>last_scores := setrow (last_scores st) subject difficulty row'\<rparr>)
                   | Inr estimate_before \<Rightarrow>
                       (Inr (last_scores st ! subject ! difficulty ! 0,
                             estimate_after - estimate_before),
                        st\<lparr>last_scores := setrow (last_scores st) subject difficulty row'\<rparr>)))"
proof -
  define L where "L = learning_type_number st"
  define S where "S = num_subjects st"
  define D where "D = difficulties_levels st"
  define ls where "ls = last_scores st"
  have r: "rect S D (2 * L + 2) ls"
    using ok by (simp add: shapes_ok_def L_def S_def D_def ls_def)
  have s': "subject < S" and d': "difficulty < D" using s d by (simp_all add: S_def D_def)
  from ok s d obtain tm where tm: "get_test_mean st subject difficulty = Inr tm"
    using get_test_mean_succeeds[of subject st difficulty] by (auto simp: shapes_ok_def)
  define row where "row = ls ! subject ! difficulty"
  have rl: "length row = 2 * L + 2" unfolding row_def using r s' d' by (rule rect_row_length)
  define prev where "prev = row ! 0"
  define sc where "sc = min (max (normal tm TEST_SCORE_STD z) 0) 100"
  have g0: "getitem3 ls subject difficulty 0 = Inr prev"
    using r s' d' by (simp add: getitem3_rect prev_def row_def)
  from layer0_rect[OF r] obtain ps where ps: "layer0 ls = Inr ps" "length ps = S" by auto
  define ls1 where "ls1 = setrow ls subject difficulty (row[1 := sc - prev])"
  have s1: "setitem3 ls subject difficulty 1 (sc - prev) = Inr ls1"
    using r s' d' by (simp add: setitem3_rect ls1_def row_def)
  have r1: "rect S D (2 * L + 2) ls1"
    unfolding ls1_def using r rl by (simp add: rect_setrow)
  have row1: "ls1 ! subject ! difficulty = row[1 := sc - prev]"
    unfolding ls1_def using r s' d' by (simp add: nth_setrow)
  define row' where "row' = (row[1 := sc - prev])[0 := sc]"
  define ls2 where "ls2 = setrow ls subject difficulty row'"
  have "setrow ls1 subject difficulty row' = ls2"
    unfolding ls1_def ls2_def setrow_def using r s' by (simp add: rect_length)
  then have s2: "setitem3 ls1 subject difficulty 0 sc = Inr ls2"
    using r1 s' d' by (simp add: setitem3_rect row1 row'_def)
  have rl': "length row' = 2 * L + 2" using rl by (simp add: row'_def)
  have r2: "rect S D (2 * L + 2) ls2"
    unfolding ls2_def using r rl' by (rule rect_setrow)
  from layer0_rect[OF r2] obtain sc2 where sc2: "layer0 ls2 = Inr sc2" "length sc2 = S" by auto
  have run: "sample_score est st subject difficulty z =
      (case getitem (est sc2 REVIEW_RATIO) subject of
         Inl e \<Rightarrow> (Inl e, st\<lparr>last_scores := ls2\<rparr>)
       | Inr estimate_after \<Rightarrow>
           (case getitem (est ps REVIEW_RATIO) subject of
              Inl e \<Rightarrow> (Inl e, st\<lparr>last_scores := ls2\<rparr>)
            | Inr estimate_before \<Rightarrow>
                (Inr (prev, estimate_after - estimate_before), st\<lparr>last_scores := ls2\<rparr>)))"
    using tm g0 ps(1) s1 s2 sc2(1)
    by (simp add: sample_score_def ls_def[symmetric] sc_def[symmetric] Let_def)
  have dr: "drop 2 row' = drop 2 row" by (simp add: row'_def drop_update_cancel)
  have v: "row' ! 0 = sc" using rl by (simp add: row'_def)
  have b: "0 \<le> sc \<and> sc \<le> 100" by (simp add: sc_def)
  show ?thesis
    using run rl' dr v b ps(2) sc2(2)
    unfolding prev_def row_def ls2_def ls_def L_def S_def by blast
qed

lemma sample_score_shape:
  assumes ok: "shapes_ok st"
      and s: "subject < num_subjects st" and d: "difficulty < difficulties_levels st"
      and run: "sample_score est st subject difficulty z = (Inr (prev, impr), st2)"
  shows "\<exists>row'. st2 = st\<lparr>last_scores := setrow (last_scores st) subject difficulty row'\<rparr>
           \<and> length row' = 2 * learning_type_number st + 2
           \<and> drop 2 row' = drop 2 (last_scores st ! subject ! difficulty)
           \<and> prev = last_scores st ! subject ! difficulty ! 0"
proof -
  from sample_score_unfold[OF ok s d, of est z]
  obtain row' before after where
    rl: "length row' = 2 * learning_type_number st + 2"
    and dr: "drop 2 row' = drop 2 (last_scores st ! subject ! difficulty)"
    and u: "sample_score est st subject difficulty z =
             (case getitem (est after REVIEW_RATIO) subject of
                Inl e \<Rightarrow>
                  (Inl e, st\<lparr>last_scores := setrow (last_scores st) subject difficulty row'\<rparr>)
              | Inr estimate_after \<Rightarrow>
                  (case getitem (est before REVIEW_RATIO) subject of
                     Inl e \<Rightarrow>
                       (Inl e, st\<lparr>last_scores := setrow (last_scores st) subject difficulty row'\<rparr>)
                   | Inr estimate_before \<Rightarrow>
                       (Inr (last_scores st ! subject ! difficulty ! 0,
                             estimate_after - estimate_before),
                        st\<lparr>last_scores := setrow (last_scores st) subject difficulty row'\<rparr>)))"
    by blast
  from run[unfolded u]
  have "st2 = st\<lparr>last_scores := setrow (last_scores st) subject difficulty row'\<rparr>
        \<and> prev = last_scores st ! subject ! difficulty ! 0"
    by (auto split: sum.splits)
  with rl dr show ?thesis by blast
qed

lemma sample_score_succeeds:
  assumes ok: "shapes_ok st"
      and s: "subject < num_subjects st" and d: "difficulty < difficulties_levels st"
      and est: "\<forall>m. length (est m REVIEW_RATIO) = length m"
  shows "\<exists>impr row'.
           sample_score est st subject difficulty z =
             (Inr (last_scores st ! subject ! difficulty ! 0, impr),
              st\<lparr>last_scores := setrow (last_scores st) subject difficulty row'\<rparr>)
           \<and> length row' = 2 * learning_type_number st + 2
           \<and> drop 2 row' = drop 2 (last_scores st ! subject ! difficulty)
           \<and> 0 \<le> row' ! 0 \<and> row' ! 0 \<le> 100"
proof -
  from sample_score_unfold[OF ok s d, of est z]
  obtain row' before after where
    f: "length row' = 2 * learning_type_number st + 2"
       "drop 2 row' = drop 2 (last_scores st ! subject ! difficulty)"
       "0 \<le> row' ! 0" "row' ! 0 \<le> 100"
    and l: "length before = num_subjects st" "length after = num_subjects st"
    and u: "sample_score est st subject difficulty z =
             (case getitem (est after REVIEW_RATIO) subject of
                Inl e \<Rightarrow>
                  (Inl e, st\<lparr>last_scores := setrow (last_scores st) subject difficulty row'\<rparr>)
              | Inr estimate_after \<Rightarrow>
                  (case getitem (est before REVIEW_RATIO) subject of
                     Inl e \<Rightarrow>
                       (Inl e, st\<lparr>last_scores := setrow (last_scores st) subject difficulty row'\<rparr>)
                   | Inr estimate_before \<Rightarrow>
                       (Inr (last_scores st ! subject ! difficulty ! 0,
                             estimate_after - estimate_before),
                        st\<lparr>last_scores := setrow (last_scores st) subject difficulty row'\<rparr>)))"
    by blast
  have e1: "getitem (est after REVIEW_RATIO) subject = Inr (est after REVIEW_RATIO ! subject)"
    using est l(2) s by (simp add: getitem_def)
  have e2: "getitem (est before REVIEW_RATIO) subject = Inr (est before REVIEW_RATIO ! subject)"
    using est l(1) s by (simp add: getitem_def)
  have "sample_score est st subject difficulty z =
          (Inr (last_scores st ! subject ! difficulty ! 0,
                est after REVIEW_RATIO ! subject - est before REVIEW_RATIO ! subject),
           st\<lparr>last_scores := setrow (last_scores st) subject difficulty row'\<rparr>)"
    unfolding u e1 e2 by simp
  with f show ?thesis by blast
qed

lemma type_gain_loop_length:
  "type_gain_loop tc subject difficulty idx zs ng = Inr vals \<Longrightarrow> length vals = length zs"
proof (induction zs arbitrary: idx vals)
  case Nil
  then show ?case by simp
next
  case (Cons p rest)
  obtain a r where p: "p = (a, r)" by (cases p)
  from Cons.prems obtain v vs where
    "type_gain_loop tc subject difficulty (Suc idx) rest ng = Inr vs" "vals = v # vs"
    unfolding p by (auto split: sum.splits)
  with Cons.IH show ?case by simp
qed

lemma type_gain_loop_succeeds:
  assumes "rect S D L tc" "subject < S" "difficulty < D" "idx + length zs \<le> L"
      and "\<forall>c\<in>set (tc ! subject ! difficulty). 0 \<le> c" "\<forall>p\<in>set zs. 0 \<le> snd p"
  shows "\<exists>vals. type_gain_loop tc subject difficulty idx zs ng = Inr vals
           \<and> length vals = length zs"
  using assms(4,6)
proof (induction zs arbitrary: idx)
  case Nil
  then show ?case by simp
next
  case (Cons p rest)
  obtain a r where p: "p = (a, r)" by (cases p)
  have idx: "idx < L" using Cons.prems(1) by simp
  define c where "c = tc ! subject ! difficulty ! idx"
  have len: "length (tc ! subject ! difficulty) = L"
    using assms(1,2,3) by (rule rect_row_length)
  have g: "getitem3 tc subject difficulty idx = Inr c"
    using assms(1,2,3) idx by (simp add: getitem3_rect c_def)
  have "c \<in> set (tc ! subject ! difficulty)"
    unfolding c_def using idx len by simp
  then have c0: "0 \<le> c" using assms(5) by blast
  have r0: "0 \<le> r" using Cons.prems(2) p by simp
  have av: "\<exists>v. (if c = 0 then Inr ng else average2 a ng c r) = Inr v"
    using c0 r0 by (auto simp: average2_def)
  then obtain v where v: "(if c = 0 then Inr ng else average2 a ng c r) = Inr v" by blast
  have "Suc idx + length rest \<le> L" using Cons.prems(1) by simp
  moreover have "\<forall>p\<in>set rest. 0 \<le> snd p" using Cons.prems(2) by simp
  ultimately obtain vs where
    vs: "type_gain_loop tc subject difficulty (Suc idx) rest ng = Inr vs" "length vs = length rest"
    using Cons.IH by blast
  have "type_gain_loop tc subject difficulty idx (p # rest) ng = Inr (v # vs)"
    unfolding p using g v vs(1) by simp
  with vs(2) show ?case by simp
qed

lemma add_ratio_rows_succeeds:
  assumes "rect S D n tc" "subject < S" "set ds \<subseteq> {..<D}"
  shows "\<exists>tc'. add_ratio_rows tc subject ds ratio = (None, tc') \<and> rect S D n tc'"
  using assms(1,3)
proof (induction ds arbitrary: tc)
  case Nil
  then show ?case by simp
next
  case (Cons d rest)
  have d: "d < D" using Cons.prems(2) by simp
  have c: "subject < length tc \<and> d < length (tc ! subject)"
    using Cons.prems(1) assms(2) d by (simp add: rect_length rect_rows)
  define tc1 where "tc1 = setrow tc subject d (map (\<lambda>c. c + ratio) (tc ! subject ! d))"
  have "length (map (\<lambda>c. c + ratio) (tc ! subject ! d)) = n"
    using Cons.prems(1) assms(2) d by (simp add: rect_row_length)
  then have r1: "rect S D n tc1" unfolding tc1_def using Cons.prems(1) by (simp add: rect_setrow)
  have "set rest \<subseteq> {..<D}" using Cons.prems(2) by simp
  with Cons.IH[OF r1] obtain tc' where
    "add_ratio_rows tc1 subject rest ratio = (None, tc')" "rect S D n tc'" by blast
  then show ?case using c by (simp add: tc1_def)
qed

lemma length_counts_slice:
  "length row = 2 * L + 2 \<Longrightarrow> length (counts_slice L row) = L"
  by (simp add: counts_slice_def)

lemma get_mean_type_gain_succeeds:
  assumes ok: "shapes_ok st" and nn: "counters_nonneg st"
      and LD: "learning_type_number st \<le> difficulties_levels st"
      and s: "subject < num_subjects st" and d: "difficulty < difficulties_levels st"
  shows "\<exists>mtg tc' g.
           get_mean_type_gain st subject difficulty impr = (Inr mtg, st\<lparr>train_counter := tc'\<rparr>)
           \<and> rect (num_subjects st) (difficulties_levels st) (learning_type_number st) tc'
           \<and> deref (learning_type_number st) (last_scores st) mtg = Inr g
           \<and> length g = learning_type_number st"
proof -
  define L where "L = learning_type_number st"
  define S where "S = num_subjects st"
  define D where "D = difficulties_levels st"
  define ls where "ls = last_scores st"
  define tc where "tc = train_counter st"
  have L: "0 < L" using ok by (simp add: shapes_ok_def L_def)
  have r: "rect S D (2 * L + 2) ls"
    using ok by (simp add: shapes_ok_def L_def S_def D_def ls_def)
  have rt: "rect S D L tc"
    using ok by (simp add: shapes_ok_def L_def S_def D_def tc_def)
  have s': "subject < S" and d': "difficulty < D" using s d by (simp_all add: S_def D_def)
  define row where "row = ls ! subject ! difficulty"
  have rl: "length row = 2 * L + 2" unfolding row_def using r s' d' by (rule rect_row_length)
  have gr: "getrow ls subject difficulty = Inr row"
    unfolding row_def using r s' d' by (rule getrow_rect)
  define num where "num = counts_slice L row"
  define total where "total = sum_list num"
  have gl: "length (gains_slice L row) = L" using L rl by (rule length_gains_slice)
  show ?thesis
  proof (cases "total > 0")
    case False
    have "get_mean_type_gain st subject difficulty impr = (Inr (View subject difficulty), st)"
      using gr False
      by (simp add: get_mean_type_gain_def ls_def[symmetric] L_def[symmetric] Let_def
          num_def[symmetric] total_def[symmetric])
    then have run: "get_mean_type_gain st subject difficulty impr
        = (Inr (View subject difficulty), st\<lparr>train_counter := tc\<rparr>)"
      by (simp add: tc_def)
    have "deref L ls (View subject difficulty) = Inr (gains_slice L row)"
      using gr by (simp add: deref_def)
    with run rt gl show ?thesis
      unfolding L_def S_def D_def ls_def by blast
  next
    case True
    define ratio where "ratio = map (\<lambda>c. c / total) num"
    define zipped where "zipped = zip (gains_slice L row) ratio"
    have nl: "length num = L" unfolding num_def using rl by (rule length_counts_slice)
    have zl: "length zipped = L" by (simp add: zipped_def ratio_def gl nl)
    have cn: "\<forall>c\<in>set num. 0 \<le> c"
      using nn s d by (simp add: counters_nonneg_def num_def row_def ls_def L_def)
    have tn: "\<forall>c\<in>set (tc ! subject ! difficulty). 0 \<le> c"
      using nn s d by (simp add: counters_nonneg_def tc_def)
    have rn: "\<forall>x\<in>set ratio. 0 \<le> x"
      using cn True by (auto simp: ratio_def)
    have zn: "\<forall>p\<in>set zipped. 0 \<le> snd p"
    proof
      fix p assume m: "p \<in> set zipped"
      obtain a b where p: "p = (a, b)" by (cases p)
      from m p have "(a, b) \<in> set (zip (gains_slice L row) ratio)" by (simp add: zipped_def)
      then have "b \<in> set ratio" by (rule set_zip_rightD)
      with rn p show "0 \<le> snd p" by simp
    qed
    have "0 + length zipped \<le> L" using zl by simp
    from type_gain_loop_succeeds[OF rt s' d' this tn zn, of "impr / total"]
    obtain vals where vals:
      "type_gain_loop tc subject difficulty 0 zipped (impr / total) = Inr vals"
      "length vals = L" using zl by auto
    have "set [0..<L] \<subseteq> {..<D}" using LD by (auto simp: L_def D_def)
    from add_ratio_rows_succeeds[OF rt s' this, of "snd (last zipped)"]
    obtain tc' where tc':
      "add_ratio_rows tc subject [0..<L] (snd (last zipped)) = (None, tc')" "rect S D L tc'"
      by blast
    have run: "get_mean_type_gain st subject difficulty impr
        = (Inr (Fresh vals), st\<lparr>train_counter := tc'\<rparr>)"
      using gr True vals tc'(1)
      by (simp add: get_mean_type_gain_def ls_def[symmetric] L_def[symmetric] Let_def
          num_def[symmetric] total_def[symmetric] ratio_def[symmetric] zipped_def[symmetric]
          tc_def[symmetric])
    have "deref L ls (Fresh vals) = Inr vals" by (simp add: deref_def)
    with run tc'(2) vals(2) show ?thesis
      unfolding L_def S_def D_def ls_def by blast
  qed
qed

lemma get_mean_type_gain_shape:
  assumes ok: "shapes_ok st"
      and s: "subject < num_subjects st" and d: "difficulty < difficulties_levels st"
      and run: "get_mean_type_gain st subject difficulty impr = (Inr mtg, st3)"
  shows "\<exists>tc' g. st3 = st\<lparr>train_counter := tc'\<rparr>
           \<and> deref (learning_type_number st) (last_scores st) mtg = Inr g
           \<and> length g = learning_type_number st"
proof -
  define L where "L = learning_type_number st"
  define S where "S = num_subjects st"
  define D where "D = difficulties_levels st"
  define ls where "ls = last_scores st"
  define tc where "tc = train_counter st"
  have L: "0 < L" using ok by (simp add: shapes_ok_def L_def)
  have r: "rect S D (2 * L + 2) ls"
    using ok by (simp add: shapes_ok_def L_def S_def D_def ls_def)
  have s': "subject < S" and d': "difficulty < D" using s d by (simp_all add: S_def D_def)
  define row where "row = ls ! subject ! difficulty"
  have rl: "length row = 2 * L + 2" unfolding row_def using r s' d' by (rule rect_row_length)
  have gr: "getrow ls subject difficulty = Inr row"
    unfolding row_def using r s' d' by (rule getrow_rect)
  define num where "num = counts_slice L row"
  define total where "total = sum_list num"
  have gl: "length (gains_slice L row) = L" using L rl by (rule length_gains_slice)
  show ?thesis
  proof (cases "total > 0")
    case False
    have "get_mean_type_gain st subject difficulty impr = (Inr (View subject difficulty), st)"
      using gr False
      by (simp add: get_mean_type_gain_def ls_def[symmetric] L_def[symmetric] Let_def
          num_def[symmetric] total_def[symmetric])
    with run have m: "mtg = View subject difficulty" and "st3 = st" by simp_all
    then have st3: "st3 = st\<lparr>train_counter := tc\<rparr>" by (simp add: tc_def)
    have "deref L ls mtg = Inr (gains_slice L row)"
      using gr m by (simp add: deref_def)
    with st3 gl show ?thesis
      unfolding L_def ls_def by blast
  next
    case True
    define ratio where "ratio = map (\<lambda>c. c / total) num"
    define zipped where "zipped = zip (gains_slice L row) ratio"
    have nl: "length num = L" unfolding num_def using rl by (rule length_counts_slice)
    have zl: "length zipped = L" by (simp add: zipped_def ratio_def gl nl)
    define looped where "looped = add_ratio_rows tc subject [0..<L] (snd (last zipped))"
    have u: "get_mean_type_gain st subject difficulty impr =
        (case type_gain_loop tc subject difficulty 0 zipped (impr / total) of
           Inl e \<Rightarrow> (Inl e, st)
         | Inr vals \<Rightarrow>
             (case fst looped of
                Some e \<Rightarrow> (Inl e, st\<lparr>train_counter := snd looped\<rparr>)
              | None \<Rightarrow> (Inr (Fresh (vals @ replicate (L - length vals) (- 1))),
                          st\<lparr>train_counter := snd looped\<rparr>)))"
    proof (cases "type_gain_loop tc subject difficulty 0 zipped (impr / total)")
      case (Inl e)
      then show ?thesis
        using gr True
        by (simp add: get_mean_type_gain_def ls_def[symmetric] L_def[symmetric] Let_def
            num_def[symmetric] total_def[symmetric] ratio_def[symmetric] zipped_def[symmetric]
            tc_def[symmetric])
    next
      case (Inr vals)
      then show ?thesis
        using gr True
        by (simp add: get_mean_type_gain_def ls_def[symmetric] L_def[symmetric] Let_def
            num_def[symmetric] total_def[symmetric] ratio_def[symmetric] zipped_def[symmetric]
            tc_def[symmetric] looped_def[symmetric])
    qed
    from run[unfolded u] obtain vals where
      vals: "type_gain_loop tc subject difficulty 0 zipped (impr / total) = Inr vals"
      and m: "mtg = Fresh (vals @ replicate (L - length vals) (- 1))"
      and st3: "st3 = st\<lparr>train_counter := snd looped\<rparr>"
      by (auto split: sum.splits option.splits)
    have "length vals = L" using type_gain_loop_length[OF vals] zl by simp
    then have "length (vals @ replicate (L - length vals) (- 1)) = L" by simp
    moreover have "deref L ls mtg = Inr (vals @ replicate (L - length vals) (- 1))"
      using m by (simp add: deref_def)
    ultimately show ?thesis using st3
      unfolding L_def ls_def by blast
  qed
qed

subsection \<open>A test on a well-shaped state\<close>

lemma shapes_ok_scores:
  assumes "shapes_ok st" "length r = 2 * learning_type_number st + 2"
  shows "shapes_ok (st\<lparr>last_scores := setrow (last_scores st) s d r\<rparr>)"
  using assms by (simp add: shapes_ok_def rect_setrow)

lemma counts_slice_drop:
  "drop 2 r = drop 2 r' \<Longrightarrow> counts_slice L r = counts_slice L r'"
  by (simp add: counts_slice_def)

lemma counters_nonneg_scores:
  assumes ok: "shapes_ok st" and nn: "counters_nonneg st"
      and s: "s < num_subjects st" and d: "d < difficulties_levels st"
      and dr: "drop 2 r = drop 2 (last_scores st ! s ! d)"
  shows "counters_nonneg (st\<lparr>last_scores := setrow (last_scores st) s d r\<rparr>)"
proof -
  have r: "rect (num_subjects st) (difficulties_levels st) (2 * learning_type_number st + 2)
             (last_scores st)"
    using ok by (simp add: shapes_ok_def)
  have "counts_slice (learning_type_number st) (setrow (last_scores st) s d r ! s' ! d')
        = counts_slice (learning_type_number st) (last_scores st ! s' ! d')"
    if "s' < num_subjects st" "d' < difficulties_levels st" for s' d'
    using nth_setrow[OF r that, of s d r] counts_slice_drop[OF dr] by simp
  with nn show ?thesis by (simp add: counters_nonneg_def)
qed

lemma zero_counts_row:
  assumes "0 < L" "length row = 2 * L + 2"
  shows "length (zero_counts_slice L row) = 2 * L + 2"
    and "gains_slice L (zero_counts_slice L row) = gains_slice L row"
    and "zero_counts_slice L row ! 0 = row ! 0"
proof -
  have c: "length (counts_slice L row) = L" using assms(2) by (rule length_counts_slice)
  show "length (zero_counts_slice L row) = 2 * L + 2"
    using assms by (simp add: zero_counts_slice_def c)
  show "gains_slice L (zero_counts_slice L row) = gains_slice L row"
    using assms by (simp add: zero_counts_slice_def c gains_slice_def gains_start_def)
  show "zero_counts_slice L row ! 0 = row ! 0"
    using assms by (simp add: zero_counts_slice_def nth_append)
qed

lemma test_reward_succeeds:
  assumes "length (cumulative_train_time st) = num_subjects st"
      and "rect (num_subjects st) (difficulties_levels st) (2 * learning_type_number st + 2)
             (last_scores st)"
      and "subject < num_subjects st" "difficulty < difficulties_levels st"
  shows "\<exists>r. test_reward st subject difficulty prev = Inr r"
    and "cumulative_train_time st ! subject = 0 \<Longrightarrow>
         test_reward st subject difficulty prev = Inr TIME_PENALTY_FOR_TEST"
proof -
  have g: "getitem (cumulative_train_time st) subject = Inr (cumulative_train_time st ! subject)"
    using assms(1,3) by (simp add: getitem_def)
  have g3: "getitem3 (last_scores st) subject difficulty 0
            = Inr (last_scores st ! subject ! difficulty ! 0)"
    using assms(2,3,4) by (simp add: getitem3_rect)
  show "\<exists>r. test_reward st subject difficulty prev = Inr r"
    by (simp add: test_reward_def g g3)
  show "test_reward st subject difficulty prev = Inr TIME_PENALTY_FOR_TEST"
    if "cumulative_train_time st ! subject = 0"
    using that by (simp add: test_reward_def g)
qed

lemma set_last_action_shape:
  "set_last_action k v st = Inr st' \<Longrightarrow> \<exists>la. st' = st\<lparr>last_action := Some la\<rparr>"
  by (auto simp: set_last_action_def split: option.splits)

lemma test_unfold:
  assumes ok: "shapes_ok st"
      and s: "subject < num_subjects st" and d: "difficulty < difficulties_levels st"
      and samp: "sample_score est st subject difficulty z = (Inr (prev, impr), st2)"
      and gm: "get_mean_type_gain st2 subject difficulty impr = (Inr mtg, st3)"
  shows "\<exists>g ls5.
           deref (learning_type_number st) (last_scores st3) mtg = Inr g
         \<and> length g = learning_type_number st
         \<and> rect (num_subjects st) (difficulties_levels st) (2 * learning_type_number st + 2) ls5
         \<and> (\<forall>s'<num_subjects st. \<forall>d'<difficulties_levels st.
               gains_slice (learning_type_number st) (ls5 ! s' ! d') =
                 (if s' = subject then g
                  else map2 weighted
                         (gains_slice (learning_type_number st) (last_scores st ! s' ! d')) g))
         \<and> num_subjects st3 = num_subjects st
         \<and> difficulties_levels st3 = difficulties_levels st
         \<and> learning_type_number st3 = learning_type_number st
         \<and> cumulative_train_time st3 = cumulative_train_time st
         \<and> step_num st3 = step_num st
         \<and> last_action st3 = last_action st
         \<and> test est st subject difficulty z =
             (case set_last_action ''test_score'' (LNum (ls5 ! subject ! difficulty ! 0))
                     (st3\<lparr>last_scores := ls5\<rparr>) of
                Inl e \<Rightarrow> (Inl e, st3\<lparr>last_scores := ls5\<rparr>)
              | Inr st6 \<Rightarrow>
                  (case test_reward st6 subject difficulty prev of
                     Inl e \<Rightarrow> (Inl e, st6)
                   | Inr reward \<Rightarrow> (Inr reward, st6)))"
proof -
  define L where "L = learning_type_number st"
  define S where "S = num_subjects st"
  define D where "D = difficulties_levels st"
  define ls where "ls = last_scores st"
  have L: "0 < L" using ok by (simp add: shapes_ok_def L_def)
  have r: "rect S D (2 * L + 2) ls"
    using ok by (simp add: shapes_ok_def L_def S_def D_def ls_def)
  have s': "subject < S" and d': "difficulty < D" using s d by (simp_all add: S_def D_def)
  from sample_score_shape[OF ok s d samp]
  obtain row' where
    st2: "st2 = st\<lparr>last_scores := setrow ls subject difficulty row'\<rparr>"
    and rl': "length row' = 2 * L + 2"
    unfolding ls_def L_def by blast
  define ls2 where "ls2 = setrow ls subject difficulty row'"
  have ok2: "shapes_ok st2"
    unfolding st2 ls_def using ok rl' by (simp add: shapes_ok_scores L_def)
  have f2: "learning_type_number st2 = L" "num_subjects st2 = S" "difficulties_levels st2 = D"
    "last_scores st2 = ls2"
    by (simp_all add: st2 ls2_def L_def S_def D_def)
  have r2: "rect S D (2 * L + 2) ls2" unfolding ls2_def using r rl' by (rule rect_setrow)
  have s2: "subject < num_subjects st2" and d2: "difficulty < difficulties_levels st2"
    using s' d' by (simp_all add: f2)
  from get_mean_type_gain_shape[OF ok2 s2 d2 gm]
  obtain tc' g where
    st3: "st3 = st2\<lparr>train_counter := tc'\<rparr>"
    and dg0: "deref (learning_type_number st2) (last_scores st2) mtg = Inr g"
    and gl0: "length g = learning_type_number st2"
    by blast
  have dg: "deref L ls2 mtg = Inr g" and gl: "length g = L"
    using dg0 gl0 by (simp_all add: f2)
  have f3: "learning_type_number st3 = L" "num_subjects st3 = S" "difficulties_levels st3 = D"
    "last_scores st3 = ls2"
    by (simp_all add: st3 f2)
  have fr: "cumulative_train_time st3 = cumulative_train_time st" "step_num st3 = step_num st"
    "last_action st3 = last_action st"
    by (simp_all add: st3 st2)
  have all: "set [0..<D] \<subseteq> {..<D}" "distinct [0..<D]" by auto
  from propagate_gains_result[OF L r2 s' gl dg all] obtain ls4 where
    pg: "propagate_gains L S subject mtg [0..<D] ls2 = (None, ls4)"
    and r4: "rect S D (2 * L + 2) ls4"
    and pt: "\<And>s' d'. s' < S \<Longrightarrow> d' < D \<Longrightarrow>
               ls4 ! s' ! d' =
                 (if d' \<in> set [0..<D]
                  then (if s' = subject then put_gains L g (ls2 ! s' ! d')
                        else blend_gains L g (ls2 ! s' ! d'))
                  else ls2 ! s' ! d')"
    by blast
  define row4 where "row4 = ls4 ! subject ! difficulty"
  have gr4: "getrow ls4 subject difficulty = Inr row4"
    unfolding row4_def using r4 s' d' by (rule getrow_rect)
  have rl4: "length row4 = 2 * L + 2"
    unfolding row4_def using r4 s' d' by (rule rect_row_length)
  define ls5 where "ls5 = setrow ls4 subject difficulty (zero_counts_slice L row4)"
  have r5: "rect S D (2 * L + 2) ls5"
    unfolding ls5_def using r4 zero_counts_row(1)[OF L rl4] by (rule rect_setrow)
  define st5 where "st5 = st3\<lparr>last_scores := ls5\<rparr>"
  define score where "score = ls5 ! subject ! difficulty ! 0"
  have g5: "getitem3 ls5 subject difficulty 0 = Inr score"
    using r5 s' d' by (simp add: getitem3_rect score_def)
  have f5: "last_scores st5 = ls5" by (simp add: st5_def)
  have run: "test est st subject difficulty z =
      (case set_last_action ''test_score'' (LNum score) st5 of
         Inl e \<Rightarrow> (Inl e, st5)
       | Inr st6 \<Rightarrow>
           (case test_reward st6 subject difficulty prev of
              Inl e \<Rightarrow> (Inl e, st6)
            | Inr reward \<Rightarrow> (Inr reward, st6)))"
    using samp gm pg gr4 g5 f5
    by (simp add: test_def f3 Let_def ls5_def[symmetric] st5_def[symmetric])
  have gains: "gains_slice L (ls5 ! s1 ! d1) =
      (if s1 = subject then g else map2 weighted (gains_slice L (ls ! s1 ! d1)) g)"
    if s1: "s1 < S" and d1: "d1 < D" for s1 d1
  proof (cases "s1 = subject")
    case True
    have l2: "length (ls2 ! subject ! d1) = 2 * L + 2"
      using r2 s' d1 by (rule rect_row_length)
    have p4: "ls4 ! subject ! d1 = put_gains L g (ls2 ! subject ! d1)"
      using pt[OF s' d1] d1 by simp
    have g4: "gains_slice L (ls4 ! subject ! d1) = g"
      unfolding p4 using L l2 gl by (rule gains_put_gains)
    have "gains_slice L (ls5 ! subject ! d1) = g"
    proof (cases "d1 = difficulty")
      case True
      have "ls5 ! subject ! d1 = zero_counts_slice L row4"
        unfolding ls5_def using nth_setrow[OF r4 s' d1] True by simp
      then show ?thesis
        using zero_counts_row(2)[OF L rl4] g4 True by (simp add: row4_def)
    next
      case False
      have "ls5 ! subject ! d1 = ls4 ! subject ! d1"
        unfolding ls5_def using nth_setrow[OF r4 s' d1] False by simp
      with g4 show ?thesis by simp
    qed
    with True show ?thesis by simp
  next
    case False
    have a5: "ls5 ! s1 ! d1 = ls4 ! s1 ! d1"
      unfolding ls5_def using nth_setrow[OF r4 s1 d1] False by simp
    have a4: "ls4 ! s1 ! d1 = blend_gains L g (ls2 ! s1 ! d1)"
      using pt[OF s1 d1] d1 False by simp
    have a2: "ls2 ! s1 ! d1 = ls ! s1 ! d1"
      unfolding ls2_def using nth_setrow[OF r s1 d1] False by simp
    have l1: "length (ls ! s1 ! d1) = 2 * L + 2"
      using r s1 d1 by (rule rect_row_length)
    have "gains_slice L (ls5 ! s1 ! d1) = map2 weighted (gains_slice L (ls ! s1 ! d1)) g"
      unfolding a5 a4 a2 using L l1 gl by (rule gains_blend_gains)
    with False show ?thesis by simp
  qed
  have dg': "deref L (last_scores st3) mtg = Inr g" using dg by (simp add: f3)
  note run' = run[unfolded score_def st5_def]
  show ?thesis
    unfolding L_def[symmetric] S_def[symmetric] D_def[symmetric] ls_def[symmetric]
    using dg' gl r5 gains f3(1,2,3) fr run'
    by (intro exI[of _ g] exI[of _ ls5]) simp
qed

lemma test_parts:
  assumes ok: "shapes_ok st"
      and s: "subject < num_subjects st" and d: "difficulty < difficulties_levels st"
      and run: "test est st subject difficulty z = (Inr r, st')"
  shows "\<exists>prev impr st2 mtg st3 g.
           sample_score est st subject difficulty z = (Inr (prev, impr), st2)
         \<and> get_mean_type_gain st2 subject difficulty impr = (Inr mtg, st3)
         \<and> deref (learning_type_number st) (last_scores st3) mtg = Inr g
         \<and> length g = learning_type_number st
         \<and> test_reward st' subject difficulty prev = Inr r
         \<and> cumulative_train_time st' = cumulative_train_time st
         \<and> step_num st' = step_num st
         \<and> num_subjects st' = num_subjects st
         \<and> difficulties_levels st' = difficulties_levels st
         \<and> learning_type_number st' = learning_type_number st
         \<and> rect (num_subjects st) (difficulties_levels st) (2 * learning_type_number st + 2)
              (last_scores st')
         \<and> (\<forall>s'<num_subjects st. \<forall>d'<difficulties_levels st.
               gains_slice (learning_type_number st) (last_scores st' ! s' ! d') =
                 (if s' = subject then g
                  else map2 weighted
                         (gains_slice (learning_type_number st) (last_scores st ! s' ! d')) g))"
proof -
  obtain o2 st2 where a: "sample_score est st subject difficulty z = (o2, st2)"
    by (cases "sample_score est st subject difficulty z")
  show ?thesis
  proof (cases o2)
    case (Inl e)
    with a run show ?thesis by (simp add: test_def)
  next
    case (Inr p)
    obtain prev impr where p: "p = (prev, impr)" by (cases p)
    have samp: "sample_score est st subject difficulty z = (Inr (prev, impr), st2)"
      using a Inr p by simp
    obtain o3 st3 where b: "get_mean_type_gain st2 subject difficulty impr = (o3, st3)"
      by (cases "get_mean_type_gain st2 subject difficulty impr")
    show ?thesis
    proof (cases o3)
      case (Inl e)
      with samp b run show ?thesis by (simp add: test_def)
    next
      case mtg: (Inr mtg)
      have gm: "get_mean_type_gain st2 subject difficulty impr = (Inr mtg, st3)"
        using b mtg by simp
      from test_unfold[OF ok s d samp gm]
      obtain g ls5 where
        dg: "deref (learning_type_number st) (last_scores st3) mtg = Inr g"
        and gl: "length g = learning_type_number st"
        and r5: "rect (num_subjects st) (difficulties_levels st) (2 * learning_type_number st + 2)
                   ls5"
        and gains: "\<forall>s'<num_subjects st. \<forall>d'<difficulties_levels st.
               gains_slice (learning_type_number st) (ls5 ! s' ! d') =
                 (if s' = subject then g
                  else map2 weighted
                         (gains_slice (learning_type_number st) (last_scores st ! s' ! d')) g)"
        and f3: "num_subjects st3 = num_subjects st"
                "difficulties_levels st3 = difficulties_levels st"
                "learning_type_number st3 = learning_type_number st"
                "cumulative_train_time st3 = cumulative_train_time st"
                "step_num st3 = step_num st"
        and u: "test est st subject difficulty z =
             (case set_last_action ''test_score'' (LNum (ls5 ! subject ! difficulty ! 0))
                     (st3\<lparr>last_scores := ls5\<rparr>) of
                Inl e \<Rightarrow> (Inl e, st3\<lparr>last_scores := ls5\<rparr>)
              | Inr st6 \<Rightarrow>
                  (case test_reward st6 subject difficulty prev of
                     Inl e \<Rightarrow> (Inl e, st6)
                   | Inr reward \<Rightarrow> (Inr reward, st6)))"
        by blast
      from run[unfolded u] have
        sla: "set_last_action ''test_score'' (LNum (ls5 ! subject ! difficulty ! 0))
                (st3\<lparr>last_scores := ls5\<rparr>) = Inr st'"
        and rew: "test_reward st' subject difficulty prev = Inr r"
        by (auto split: sum.splits)
      from set_last_action_shape[OF sla] obtain la where
        st': "st' = st3\<lparr>last_scores := ls5, last_action := Some la\<rparr>" by auto
      have f: "cumulative_train_time st' = cumulative_train_time st"
              "step_num st' = step_num st"
              "num_subjects st' = num_subjects st"
              "difficulties_levels st' = difficulties_levels st"
              "learning_type_number st' = learning_type_number st"
              "last_scores st' = ls5"
        by (simp_all add: st' f3)
      show ?thesis
        using samp gm dg gl rew f r5 gains
        by (intro exI[of _ prev] exI[of _ impr] exI[of _ st2] exI[of _ mtg] exI[of _ st3]
            exI[of _ g]) simp
    qed
  qed
qed

lemma test_returns:
  assumes ok: "shapes_ok st" and nn: "counters_nonneg st"
      and LD: "learning_type_number st \<le> difficulties_levels st"
      and s: "subject < num_subjects st" and d: "difficulty < difficulties_levels st"
      and est: "\<forall>m. length (est m REVIEW_RATIO) = length m"
      and la: "last_action st \<noteq> None"
  shows "\<exists>r st'. test est st subject difficulty z = (Inr r, st')"
proof -
  from sample_score_succeeds[of st subject difficulty est z] ok s d est
  obtain impr row' where
    samp: "sample_score est st subject difficulty z =
             (Inr (last_scores st ! subject ! difficulty ! 0, impr),
              st\<lparr>last_scores := setrow (last_scores st) subject difficulty row'\<rparr>)"
    and rl': "length row' = 2 * learning_type_number st + 2"
    and dr: "drop 2 row' = drop 2 (last_scores st ! subject ! difficulty)"
    by blast
  define st2 where "st2 = st\<lparr>last_scores := setrow (last_scores st) subject difficulty row'\<rparr>"
  have ok2: "shapes_ok st2"
    unfolding st2_def using ok rl' by (simp add: shapes_ok_scores)
  have nn2: "counters_nonneg st2"
    unfolding st2_def using ok nn s d dr by (simp add: counters_nonneg_scores)
  have f2: "learning_type_number st2 = learning_type_number st"
    "num_subjects st2 = num_subjects st" "difficulties_levels st2 = difficulties_levels st"
    by (simp_all add: st2_def)
  from get_mean_type_gain_succeeds[of st2 subject difficulty impr] ok2 nn2 LD s d
  obtain mtg tc' where
    gm: "get_mean_type_gain st2 subject difficulty impr = (Inr mtg, st2\<lparr>train_counter := tc'\<rparr>)"
    unfolding f2 by auto
  from test_unfold[OF ok s d samp[folded st2_def] gm]
  obtain ls5 where
    r5: "rect (num_subjects st) (difficulties_levels st) (2 * learning_type_number st + 2) ls5"
    and u: "test est st subject difficulty z =
             (case set_last_action ''test_score'' (LNum (ls5 ! subject ! difficulty ! 0))
                     (st2\<lparr>train_counter := tc', last_scores := ls5\<rparr>) of
                Inl e \<Rightarrow> (Inl e, st2\<lparr>train_counter := tc', last_scores := ls5\<rparr>)
              | Inr st6 \<Rightarrow>
                  (case test_reward st6 subject difficulty
                          (last_scores st ! subject ! difficulty ! 0) of
                     Inl e \<Rightarrow> (Inl e, st6)
                   | Inr reward \<Rightarrow> (Inr reward, st6)))"
    by auto
  from la obtain rec where rec: "last_action st = Some rec" by blast
  define st6 where "st6 = st2\<lparr>train_counter := tc', last_scores := ls5,
      last_action := Some (dict_set ''test_score'' (LNum (ls5 ! subject ! difficulty ! 0)) rec)\<rparr>"
  have sla: "set_last_action ''test_score'' (LNum (ls5 ! subject ! difficulty ! 0))
               (st2\<lparr>train_counter := tc', last_scores := ls5\<rparr>) = Inr st6"
    by (simp add: set_last_action_def st2_def rec st6_def)
  have f6: "num_subjects st6 = num_subjects st" "difficulties_levels st6 = difficulties_levels st"
    "learning_type_number st6 = learning_type_number st" "last_scores st6 = ls5"
    "cumulative_train_time st6 = cumulative_train_time st"
    by (simp_all add: st6_def st2_def)
  have ctl: "length (cumulative_train_time st6) = num_subjects st6"
    using ok by (simp add: f6 shapes_ok_def)
  have r6: "rect (num_subjects st6) (difficulties_levels st6) (2 * learning_type_number st6 + 2)
             (last_scores st6)"
    using r5 by (simp add: f6)
  from test_reward_succeeds(1)[OF ctl r6, of subject difficulty
         "last_scores st ! subject ! difficulty ! 0"] s d
  obtain rw where
    rw: "test_reward st6 subject difficulty (last_scores st ! subject ! difficulty ! 0) = Inr rw"
    by (auto simp: f6)
  have "test est st subject difficulty z = (Inr rw, st6)"
    unfolding u sla using rw by simp
  then show ?thesis by blast
qed

lemma example_two_ok:
  "shapes_ok example_two" "counters_nonneg example_two"
  "learning_type_number example_two \<le> difficulties_levels example_two"
  "0 < num_subjects example_two" "0 < difficulties_levels example_two"
  "last_action example_two \<noteq> None"
  by (simp_all add: example_two_eq shapes_ok_def counters_nonneg_def rect_def All_less_Suc
      eval_nat_numeral counts_slice_def)

subsection \<open>The reward of a test without training\<close>

text \<open>
  On a state with the constructor's shapes and counts that are not negative, for a
  valid subject and difficulty, with an estimator that gives one value per
  subject, after \<^verbatim>\<open>step\<close> has set \<^verbatim>\<open>last_action\<close>, and with no more learning
  types than difficulty levels, a test of a subject whose cumulative train time
  is zero returns \<^verbatim>\<open>TIME_PENALTY_FOR_TEST\<close>.
\<close>

lemma untrained_test_reward:
  assumes ok: "shapes_ok st" and nn: "counters_nonneg st"
      and LD: "learning_type_number st \<le> difficulties_levels st"
      and s: "subject < num_subjects st" and d: "difficulty < difficulties_levels st"
      and est: "\<forall>m. length (est m REVIEW_RATIO) = length m"
      and la: "last_action st \<noteq> None"
      and untrained: "cumulative_train_time st ! subject = 0"
  shows "fst (test est st subject difficulty z) = Inr TIME_PENALTY_FOR_TEST"
proof -
  from test_returns[of st subject difficulty est z] ok nn LD s d est la
  obtain r st' where run: "test est st subject difficulty z = (Inr r, st')" by blast
  from test_parts[OF ok s d run]
  obtain prev where
    rew: "test_reward st' subject difficulty prev = Inr r"
    and ct: "cumulative_train_time st' = cumulative_train_time st"
    and f: "num_subjects st' = num_subjects st" "difficulties_levels st' = difficulties_levels st"
           "learning_type_number st' = learning_type_number st"
    and r: "rect (num_subjects st) (difficulties_levels st) (2 * learning_type_number st + 2)
              (last_scores st')"
    by blast
  have l: "length (cumulative_train_time st') = num_subjects st'"
    using ok by (simp add: ct f shapes_ok_def)
  have r': "rect (num_subjects st') (difficulties_levels st') (2 * learning_type_number st' + 2)
              (last_scores st')"
    using r by (simp add: f)
  have "test_reward st' subject difficulty prev = Inr TIME_PENALTY_FOR_TEST"
    using test_reward_succeeds(2)[OF l r', of subject difficulty prev] s d untrained
    by (simp add: f ct)
  with rew have "r = TIME_PENALTY_FOR_TEST" by simp
  with run show ?thesis by simp
qed

text \<open>
  C3. With two difficulty levels and three learning types, subject 0 is trained at
  difficulty 1 and then tested at difficulty 0, which sets its cumulative train
  time back to zero. A test at difficulty 1, taken with a cumulative train time
  of zero, does not return \<^verbatim>\<open>TIME_PENALTY_FOR_TEST\<close>: the training counted at that
  cell sends the gain attribution into its counter loop, which addresses row 2
  of a counter that has the rows 0 and 1 only, and the test fails with
  \<^verbatim>\<open>IndexError\<close> before the reward is computed, whatever the draw behind the
  sampled score.
\<close>

theorem untrained_test_raises_index_error:
  "cumulative_train_time example_untrained = [0]
   \<and> learning_type_number example_untrained = 3
   \<and> difficulties_levels example_untrained = 2
   \<and> counts_slice 3 (last_scores example_untrained ! 0 ! 1) = [1, 0, 0]
   \<and> fst (test example_estimate example_untrained 0 1 z) = Inl IndexError
   \<and> fst (step example_estimate example_untrained [1, 0, 1, 0, 0] z) = Inl IndexError"
proof -
  have t: "fst (test example_estimate example_untrained 0 1 z) = Inl IndexError"
    unfolding example_untrained_eq
    by (simp add: test_def sample_score_def env_eval access_eval constants_eval)
  have s: "fst (step example_estimate example_untrained [1, 0, 1, 0, 0] z) = Inl IndexError"
    unfolding example_untrained_eq
    by (simp add: step_def test_def sample_score_def env_eval access_eval constants_eval)
  have f: "cumulative_train_time example_untrained = [0]"
    "learning_type_number example_untrained = 3"
    "difficulties_levels example_untrained = 2"
    "counts_slice 3 (last_scores example_untrained ! 0 ! 1) = [1, 0, 0]"
    by (simp_all add: example_untrained_eq counts_slice_def)
  from f t s show ?thesis by blast
qed

subsection \<open>The propagation of the gain estimate\<close>

text \<open>
  C7, as amended. After a test of \<open>(subject, difficulty)\<close> that returns, in every
  difficulty row of every subject, not only in the row of the tested difficulty,
  the stored gain fields are the weighted average \<open>(1 * old + 0.5 * new) / 1.5\<close>,
  where \<open>new\<close> is the vector \<open>g\<close> that the gain attribution of this test
  returned. For a subject other than the tested one \<open>old\<close> is what was stored
  before the test; for the tested subject \<open>old\<close> is \<open>g\<close> as well, since its row is
  overwritten with \<open>g\<close> before the average is taken.
\<close>

theorem gains_propagate_to_every_row:
  assumes ok: "shapes_ok st"
      and s: "subject < num_subjects st" and d: "difficulty < difficulties_levels st"
      and run: "test est st subject difficulty z = (Inr r, st')"
  shows "\<exists>prev impr st2 mtg st3 g.
           sample_score est st subject difficulty z = (Inr (prev, impr), st2)
         \<and> get_mean_type_gain st2 subject difficulty impr = (Inr mtg, st3)
         \<and> deref (learning_type_number st) (last_scores st3) mtg = Inr g
         \<and> (\<forall>s'<num_subjects st. \<forall>d'<difficulties_levels st.
               gains_slice (learning_type_number st) (last_scores st' ! s' ! d') =
                 map2 (\<lambda>old new. (1 * old + (1 / 2) * new) / (1 + 1 / 2))
                   (if s' = subject then g
                    else gains_slice (learning_type_number st) (last_scores st ! s' ! d'))
                   g)"
proof -
  from test_parts[OF ok s d run]
  obtain prev impr st2 mtg st3 g where
    a: "sample_score est st subject difficulty z = (Inr (prev, impr), st2)"
       "get_mean_type_gain st2 subject difficulty impr = (Inr mtg, st3)"
       "deref (learning_type_number st) (last_scores st3) mtg = Inr g"
    and g: "\<forall>s'<num_subjects st. \<forall>d'<difficulties_levels st.
               gains_slice (learning_type_number st) (last_scores st' ! s' ! d') =
                 (if s' = subject then g
                  else map2 weighted
                         (gains_slice (learning_type_number st) (last_scores st ! s' ! d')) g)"
    by blast
  have w: "weighted = (\<lambda>old new. (1 * old + (1 / 2) * new) / (1 + 1 / 2))"
    by (rule ext, rule ext) (simp add: weighted_def)
  have own: "map2 weighted g g = g" by (rule map2_weighted_same)
  have every: "\<forall>s'<num_subjects st. \<forall>d'<difficulties_levels st.
               gains_slice (learning_type_number st) (last_scores st' ! s' ! d') =
                 map2 weighted
                   (if s' = subject then g
                    else gains_slice (learning_type_number st) (last_scores st ! s' ! d'))
                   g"
    using g own by simp
  from a every[unfolded w] show ?thesis by blast
qed

theorem gains_propagate_to_every_row_witness:
  "shapes_ok example_two
   \<and> 0 < num_subjects example_two \<and> 0 < difficulties_levels example_two
   \<and> test example_estimate example_two 0 0 0
       = (Inr (- 2), snd (test example_estimate example_two 0 0 0))
   \<and> (\<exists>prev impr st2 mtg st3 g.
           sample_score example_estimate example_two 0 0 0 = (Inr (prev, impr), st2)
         \<and> get_mean_type_gain st2 0 0 impr = (Inr mtg, st3)
         \<and> deref (learning_type_number example_two) (last_scores st3) mtg = Inr g
         \<and> (\<forall>s'<num_subjects example_two. \<forall>d'<difficulties_levels example_two.
               gains_slice (learning_type_number example_two)
                 (last_scores (snd (test example_estimate example_two 0 0 0)) ! s' ! d') =
                 map2 (\<lambda>old new. (1 * old + (1 / 2) * new) / (1 + 1 / 2))
                   (if s' = 0 then g
                    else gains_slice (learning_type_number example_two)
                           (last_scores example_two ! s' ! d'))
                   g))"
proof -
  have "fst (test example_estimate example_two 0 0 0) = Inr (- 2)"
    unfolding example_two_eq
    by (simp add: test_def sample_score_def env_eval access_eval constants_eval)
  then have run: "test example_estimate example_two 0 0 0
       = (Inr (- 2), snd (test example_estimate example_two 0 0 0))"
    by (simp add: prod_eq_iff)
  from gains_propagate_to_every_row[OF example_two_ok(1,4,5) run] example_two_ok(1,4,5) run
  show ?thesis by blast
qed

text \<open>
  Against C7 as stated: subject 0 is tested at difficulty 0 after one training.
  The gain field of subject 1 at difficulty 1, a row of another difficulty, goes
  from 0 to \<open>202 / 15\<close>; and the tested subject's own field at the tested cell
  becomes \<open>202 / 5\<close>, the average of the new value with itself, not the average
  \<open>202 / 15\<close> of its old value 0 and the new value.
\<close>

theorem gains_propagation_counterexample:
  "gains_slice 1 (last_scores example_two ! 1 ! 1) = [0]
   \<and> gains_slice 1 (last_scores (snd (test example_estimate example_two 0 0 0)) ! 1 ! 1)
       = [202 / 15]
   \<and> gains_slice 1 (last_scores example_two ! 0 ! 0) = [0]
   \<and> gains_slice 1 (last_scores (snd (test example_estimate example_two 0 0 0)) ! 0 ! 0)
       = [202 / 5]"
  unfolding example_two_eq
  by (simp add: test_def sample_score_def env_eval access_eval constants_eval)

end
